theory Spec2Isabelle
  imports Main
begin

section \<open>Strings of the program\<close>

text \<open>
  A JavaScript string is modelled as a \<^typ>\<open>string\<close> whose characters are the
  string's code units; the model covers the code units below 256. Of the characters
  that \<^verbatim>\<open>String.prototype.trim\<close> removes, seven lie in that range: TAB, LF, VT, FF,
  CR, SPACE and the no-break space U+00A0.
\<close>

definition isWhiteSpace :: "char \<Rightarrow> bool" where
  "isWhiteSpace c = (c \<in> set [CHR 0x09, CHR 0x0A, CHR 0x0B, CHR 0x0C, CHR 0x0D, CHR 0x20, CHR 0xA0])"

text \<open>\<^verbatim>\<open>s.trim()\<close>: white space is removed at both ends.\<close>

definition trim :: "string \<Rightarrow> string" where
  "trim s = rev (dropWhile isWhiteSpace (rev (dropWhile isWhiteSpace s)))"

text \<open>The class \<^verbatim>\<open>\d\<close> of a regular expression without the unicode flag: 0 to 9.\<close>

definition isDigit :: "char \<Rightarrow> bool" where
  "isDigit c = (c \<in> set ''0123456789'')"

text \<open>\<^verbatim>\<open>/^\d+$/.test(s)\<close>: one digit at least, and digits only.\<close>

definition testDigits :: "string \<Rightarrow> bool" where
  "testDigits s = (s \<noteq> [] \<and> list_all isDigit s)"

text \<open>\<^verbatim>\<open>/^\d{5}$/.test(s)\<close>: five digits exactly.\<close>

definition testFiveDigits :: "string \<Rightarrow> bool" where
  "testFiveDigits s = (length s = 5 \<and> list_all isDigit s)"

section \<open>The key normalizer\<close>

text \<open>
  The normalisation of a MATRICULA is written inline, with the same text, at three places
  of \<^verbatim>\<open>ExcelComparisonApp\<close>: twice in \<^verbatim>\<open>compareFiles\<close> (once per file)
  and once in \<^verbatim>\<open>generateQueryScript\<close>:
  \<^verbatim>\<open>
    let normalizedMatricula = matricula.toString().trim()
    if (/^\d+$/.test(normalizedMatricula)) {
      const digitCount = normalizedMatricula.length
      if (digitCount < 6) {
        const zerosNeeded = 6 - digitCount
        normalizedMatricula = '0'.repeat(zerosNeeded) + normalizedMatricula
      }
    }
  \<close>
\<close>

definition normalizeMatricula :: "string \<Rightarrow> string" where
  "normalizeMatricula matricula =
     (let normalizedMatricula = trim matricula in
      if testDigits normalizedMatricula then
        (let digitCount = length normalizedMatricula in
         if digitCount < 6 then
           (let zerosNeeded = 6 - digitCount in
            replicate zerosNeeded (CHR ''0'') @ normalizedMatricula)
         else normalizedMatricula)
      else normalizedMatricula)"

section \<open>The data model of ExcelComparisonApp\<close>

text \<open>
  A row of a loaded sheet is a \<^verbatim>\<open>Record<string, any>\<close>. Every value that
  \<^verbatim>\<open>processExcelFile\<close> stores in a row is a string (the result of
  \<^verbatim>\<open>cleanValue\<close>, or an ISO date), so a row is a partial map from column names to
  strings; a column that the row does not have reads as \<^verbatim>\<open>undefined\<close>, here
  \<^term>\<open>None\<close>. The field \<^verbatim>\<open>size\<close> of \<^verbatim>\<open>FileData\<close> and the field
  \<^verbatim>\<open>total\<close> of \<^verbatim>\<open>ComparisonResult\<close> carry a suffix, since both names are
  constants of HOL.
\<close>

type_synonym row = "string \<rightharpoonup> string"

record FileData =
  name :: string
  size_f :: string
  records :: nat
  columns :: "string list"
  data :: "row list"
  hojaProcesada :: string
  hojasDisponibles :: "string list"

record AttrDiff =
  archivo1 :: string
  archivo2 :: string
  necesitaActualizar :: bool

datatype Status =
  actualizar_poligono | actualizar_celda | actualizar_ambos | sin_cambios | nuevo_registro

record DiffEntry =
  matricula :: string
  codigoPoligono :: AttrDiff
  codigoCelda :: AttrDiff
  status :: Status

record ComparisonResult =
  matching :: nat
  nonMatching :: nat
  total_c :: nat
  differences :: "DiffEntry list"

text \<open>A call of \<^verbatim>\<open>toast\<close>; \<^verbatim>\<open>variant\<close> is optional in the source.\<close>

record Toast =
  title :: string
  description :: string
  variant :: "string option"

text \<open>
  The state of the component that the modelled handlers read and write (the
  \<^verbatim>\<open>useState\<close> cells), and the toasts shown so far, oldest first.
\<close>

record AppState =
  file1 :: "FileData option"
  file2 :: "FileData option"
  comparison :: "ComparisonResult option"
  scripts :: string
  queryScript :: string
  isQueryScript :: bool
  isProcessing :: bool
  completedSteps :: "nat list"
  toasts :: "Toast list"

section \<open>JavaScript values\<close>

abbreviation (input) nl :: string where
  "nl \<equiv> [CHR 0x0A]"

abbreviation (input) sq :: string where
  "sq \<equiv> [CHR 0x27]"

text \<open>Truthiness of a value that is a string or \<^verbatim>\<open>undefined\<close>.\<close>

definition truthy :: "string option \<Rightarrow> bool" where
  "truthy v = (case v of None \<Rightarrow> False | Some s \<Rightarrow> s \<noteq> [])"

text \<open>\<^verbatim>\<open>a || b\<close>: the left operand when it is truthy, the right one otherwise.\<close>

definition jsOr :: "string option \<Rightarrow> string option \<Rightarrow> string option" where
  "jsOr a b = (if truthy a then a else b)"

text \<open>
  \<^verbatim>\<open>v || ''\<close>, and the string read from a value known to be truthy: an undefined or
  empty value gives the empty string.
\<close>

definition orEmpty :: "string option \<Rightarrow> string" where
  "orEmpty v = (case v of None \<Rightarrow> [] | Some s \<Rightarrow> s)"

text \<open>\<^verbatim>\<open>s || d\<close> for a string \<^verbatim>\<open>s\<close>.\<close>

definition strOr :: "string \<Rightarrow> string \<Rightarrow> string" where
  "strOr s d = (if s \<noteq> [] then s else d)"

text \<open>\<^verbatim>\<open>xs.join(sep)\<close>.\<close>

fun joinWith :: "string \<Rightarrow> string list \<Rightarrow> string" where
  "joinWith sep [] = []"
| "joinWith sep [x] = x"
| "joinWith sep (x # y # ys) = x @ sep @ joinWith sep (y # ys)"

text \<open>The decimal text of a count, as a template literal prints it.\<close>

definition digitChar :: "nat \<Rightarrow> char" where
  "digitChar d = ''0123456789'' ! d"

function showNat :: "nat \<Rightarrow> string" where
  "showNat n = (if n < 10 then [digitChar n] else showNat (n div 10) @ [digitChar (n mod 10)])"
  by pat_completeness auto
termination
  by (relation "measure id") auto

declare showNat.simps [simp del]

text \<open>
  A \<^verbatim>\<open>Map<string, any>\<close> keeps its keys in the order of their first insertion:
  \<^verbatim>\<open>set\<close> on a key that is present replaces the value where the key stands, and on
  a new key adds the entry at the end. \<^verbatim>\<open>get\<close> is \<^term>\<open>map_of\<close>, and
  \<^verbatim>\<open>forEach\<close> visits the list from its head.
\<close>

fun mapSet :: "'k \<Rightarrow> 'v \<Rightarrow> ('k \<times> 'v) list \<Rightarrow> ('k \<times> 'v) list" where
  "mapSet k v [] = [(k, v)]"
| "mapSet k v ((k', v') # m) = (if k' = k then (k, v) # m else (k', v') # mapSet k v m)"

definition mapHas :: "('k \<times> 'v) list \<Rightarrow> 'k \<Rightarrow> bool" where
  "mapHas m k = (map_of m k \<noteq> None)"

section \<open>compareFiles\<close>

text \<open>
  \<^verbatim>\<open>row['MATRICULA'] || row['matricula'] || row['Matricula']\<close>, and the two attribute
  reads, each over three spellings of the column and ending in \<^verbatim>\<open>|| ''\<close>.
\<close>

definition rowMatricula :: "row \<Rightarrow> string option" where
  "rowMatricula r = jsOr (jsOr (r ''MATRICULA'') (r ''matricula'')) (r ''Matricula'')"

definition rowPoligono :: "row \<Rightarrow> string" where
  "rowPoligono r =
     orEmpty (jsOr (jsOr (r ''CODIGO POLIGONO'') (r ''CODIGO_POLIGONO'')) (r ''codigo_poligono''))"

definition rowCelda :: "row \<Rightarrow> string" where
  "rowCelda r =
     orEmpty (jsOr (jsOr (r ''CODIGO CELDA'') (r ''CODIGO_CELDA'')) (r ''codigo_celda''))"

text \<open>
  The body of the two indexing loops: a row whose MATRICULA is falsy is skipped, before
  any trimming; every other row is stored under its normalized MATRICULA.
\<close>

definition indexRow :: "(string \<times> row) list \<Rightarrow> row \<Rightarrow> (string \<times> row) list" where
  "indexRow m r =
     (let mat = rowMatricula r in
      if truthy mat then mapSet (normalizeMatricula (orEmpty mat)) r m else m)"

definition indexByMatricula :: "row list \<Rightarrow> (string \<times> row) list" where
  "indexByMatricula rows = foldl indexRow [] rows"

text \<open>The three variables that the comparison loops update.\<close>

record Acc =
  acc_differences :: "DiffEntry list"
  acc_matching :: nat
  acc_nonMatching :: nat

text \<open>The body of \<^verbatim>\<open>file1Map.forEach\<close>.\<close>

definition compareLeft :: "(string \<times> row) list \<Rightarrow> Acc \<Rightarrow> string \<times> row \<Rightarrow> Acc" where
  "compareLeft file2Map acc kv =
     (case kv of (mat, row1) \<Rightarrow>
        (case map_of file2Map mat of
           Some row2 \<Rightarrow>
             (let codigoPoligono1 = rowPoligono row1;
                  codigoPoligono2 = rowPoligono row2;
                  codigoCelda1 = rowCelda row1;
                  codigoCelda2 = rowCelda row2;
                  poligonoDiferente = (codigoPoligono1 \<noteq> codigoPoligono2);
                  celdaDiferente = (codigoCelda1 \<noteq> codigoCelda2)
              in if poligonoDiferente \<or> celdaDiferente then
                   acc\<lparr>acc_nonMatching := acc_nonMatching acc + 1,
                       acc_differences := acc_differences acc @
                         [\<lparr>matricula = mat,
                           codigoPoligono = \<lparr>archivo1 = codigoPoligono1, archivo2 = codigoPoligono2,
                                             necesitaActualizar = poligonoDiferente\<rparr>,
                           codigoCelda = \<lparr>archivo1 = codigoCelda1, archivo2 = codigoCelda2,
                                          necesitaActualizar = celdaDiferente\<rparr>,
                           status = (if poligonoDiferente \<and> celdaDiferente then actualizar_ambos
                                     else if poligonoDiferente then actualizar_poligono
                                     else actualizar_celda)\<rparr>]\<rparr>
                 else acc\<lparr>acc_matching := acc_matching acc + 1\<rparr>)
         | None \<Rightarrow>
             acc\<lparr>acc_nonMatching := acc_nonMatching acc + 1,
                 acc_differences := acc_differences acc @
                   [\<lparr>matricula = mat,
                     codigoPoligono = \<lparr>archivo1 = rowPoligono row1, archivo2 = [],
                                       necesitaActualizar = True\<rparr>,
                     codigoCelda = \<lparr>archivo1 = rowCelda row1, archivo2 = [],
                                    necesitaActualizar = True\<rparr>,
                     status = nuevo_registro\<rparr>]\<rparr>))"

text \<open>The body of \<^verbatim>\<open>file2Map.forEach\<close>.\<close>

definition compareRight :: "(string \<times> row) list \<Rightarrow> Acc \<Rightarrow> string \<times> row \<Rightarrow> Acc" where
  "compareRight file1Map acc kv =
     (case kv of (mat, row2) \<Rightarrow>
        if \<not> mapHas file1Map mat then
          acc\<lparr>acc_nonMatching := acc_nonMatching acc + 1,
              acc_differences := acc_differences acc @
                [\<lparr>matricula = mat,
                  codigoPoligono = \<lparr>archivo1 = [], archivo2 = rowPoligono row2,
                                    necesitaActualizar = False\<rparr>,
                  codigoCelda = \<lparr>archivo1 = [], archivo2 = rowCelda row2,
                                 necesitaActualizar = False\<rparr>,
                  status = sin_cambios\<rparr>]\<rparr>
        else acc)"

text \<open>
  The comparison that the timer callback of \<^verbatim>\<open>compareFiles\<close> computes from the two
  loaded files, as the value it passes to \<^verbatim>\<open>setComparison\<close>.
\<close>

definition compareFiles :: "FileData \<Rightarrow> FileData \<Rightarrow> ComparisonResult" where
  "compareFiles f1 f2 =
     (let file1Map = indexByMatricula (data f1);
          file2Map = indexByMatricula (data f2);
          acc0 = \<lparr>acc_differences = [], acc_matching = 0, acc_nonMatching = 0\<rparr>;
          acc1 = foldl (compareLeft file2Map) acc0 file1Map;
          acc2 = foldl (compareRight file1Map) acc1 file2Map
      in \<lparr>matching = acc_matching acc2,
          nonMatching = acc_nonMatching acc2,
          total_c = records f1 + records f2,
          differences = acc_differences acc2\<rparr>)"

section \<open>generateScripts\<close>

definition isUpdateStatus :: "Status \<Rightarrow> bool" where
  "isUpdateStatus s =
     (s = actualizar_poligono \<or> s = actualizar_celda \<or> s = actualizar_ambos \<or> s = nuevo_registro)"

text \<open>The array \<^verbatim>\<open>updates\<close> of one difference.\<close>

definition setClauses :: "DiffEntry \<Rightarrow> string list" where
  "setClauses d =
     (if necesitaActualizar (codigoPoligono d) \<and> archivo1 (codigoPoligono d) \<noteq> []
      then [''cod_poligono = '' @ archivo1 (codigoPoligono d)] else [])
     @ (if necesitaActualizar (codigoCelda d) \<and> archivo1 (codigoCelda d) \<noteq> []
        then [''cod_celda = '' @ archivo1 (codigoCelda d)] else [])"

text \<open>The callback of \<^verbatim>\<open>map\<close>: a statement, or \<^verbatim>\<open>null\<close>.\<close>

definition updateStatement :: "DiffEntry \<Rightarrow> string option" where
  "updateStatement d =
     (let updates = setClauses d in
      if length updates > 0 then
        (let matriculaCorregida =
               (if testFiveDigits (matricula d) then ''0'' @ matricula d else matricula d)
         in Some (''UPDATE EDESURFLX_SGD.UTRANSFORMADORA_LT SET '' @ joinWith '', '' updates
                  @ '' WHERE instalacao = '' @ sq @ matriculaCorregida @ sq @ '';''))
      else None)"

text \<open>
  The statements before \<^verbatim>\<open>join\<close>: the differences of the four statuses, mapped, and
  the \<^verbatim>\<open>null\<close> results filtered out.
\<close>

definition updateStatementList :: "DiffEntry list \<Rightarrow> string list" where
  "updateStatementList ds =
     map orEmpty (filter (\<lambda>script. script \<noteq> None)
       (map updateStatement (filter (\<lambda>d. isUpdateStatus (status d)) ds)))"





section \<open>generateQueryScript\<close>

text \<open>The twelve column names tried for the identifier of a row of file 1.\<close>

definition rowQueryMatricula :: "row \<Rightarrow> string option" where
  "rowQueryMatricula r =
     foldl jsOr (r ''MATRICULA'')
       [r ''matricula'', r ''Matricula'',
        r ''INSTALACAO'', r ''instalacao'', r ''Instalacao'',
        r ''CODIGO'', r ''codigo'', r ''Codigo'',
        r ''ID'', r ''id'', r ''Id'']"

text \<open>The callback of \<^verbatim>\<open>map\<close>: \<^verbatim>\<open>null\<close>, or the normalized identifier.\<close>

definition queryMatricula :: "row \<Rightarrow> string option" where
  "queryMatricula r =
     (let mat = rowQueryMatricula r in
      if \<not> truthy mat then None else Some (normalizeMatricula (orEmpty mat)))"

text \<open>\<^verbatim>\<open>.filter(matricula => matricula && matricula !== '')\<close> after the map.\<close>

definition queryMatriculas :: "row list \<Rightarrow> string list" where
  "queryMatriculas rows =
     map orEmpty (filter (\<lambda>m. truthy m \<and> m \<noteq> Some []) (map queryMatricula rows))"

definition queryScriptText :: "string \<Rightarrow> FileData \<Rightarrow> string list \<Rightarrow> string" where
  "queryScriptText now f matriculas =
     concat
     [''-- ====================================================='' @ nl,
      ''-- SCRIPT DE CONSULTA PARA OBTENER DATOS ACTUALES DE LA BD'' @ nl,
      ''-- ====================================================='' @ nl,
      ''-- INFORMACI'' @ [CHR 0xD3] @ ''N DE LA BASE DE DATOS'' @ nl,
      ''-- Base de Datos: SGDPRO'' @ nl,
      ''-- Esquema: EDESURFLX_SGD'' @ nl,
      ''-- Tabla: UTRANSFORMADORA_LT'' @ nl,
      ''-- ====================================================='' @ nl,
      ''-- INFORMACI'' @ [CHR 0xD3] @ ''N DEL SCRIPT'' @ nl,
      ''-- Generado: '' @ now @ nl,
      ''-- Circuito: '' @ hojaProcesada f @ nl,
      ''-- Archivo fuente: '' @ name f @ nl,
      ''-- Total de matr'' @ [CHR 0xED] @ ''culas a consultar: '' @ showNat (length matriculas) @ nl,
      ''-- ====================================================='' @ nl,
      ''-- DIAGN'' @ [CHR 0xD3] @ ''STICO DE MATR'' @ [CHR 0xCD] @ ''CULAS'' @ nl,
      ''-- Total de matr'' @ [CHR 0xED] @ ''culas extra'' @ [CHR 0xED] @ ''das: '' @ showNat (length matriculas) @ nl,
      ''-- Formato preservado del archivo original'' @ nl,
      ''-- ====================================================='' @ nl,
      ''-- EJEMPLOS DE MATR'' @ [CHR 0xCD] @ ''CULAS (primeras 5):'' @ nl,
      joinWith nl (map (\<lambda>m. ''-- '' @ m) (take 5 matriculas)) @ nl,
      ''-- ====================================================='' @ nl,
      nl,
      ''-- CONSULTA PARA OBTENER DATOS ACTUALES DE LA BASE DE DATOS'' @ nl,
      ''-- Ejecuta este script en Oracle para obtener el archivo 2'' @ nl,
      nl,
      ''SELECT '' @ nl,
      ''    instalacao,'' @ nl,
      ''    cod_poligono,'' @ nl,
      ''    cod_celda'' @ nl,
      ''FROM EDESURFLX_SGD.UTRANSFORMADORA_LT '' @ nl,
      ''WHERE instalacao IN ('' @ joinWith '', '' (map (\<lambda>m. sq @ m @ sq) matriculas) @ '')'' @ nl,
      ''ORDER BY instalacao;'' @ nl,
      nl,
      ''-- ====================================================='' @ nl,
      ''-- INSTRUCCIONES:'' @ nl,
      ''-- 1. Ejecuta este script en Oracle'' @ nl,
      ''-- 2. Exporta el resultado a CSV o XLSX'' @ nl,
      ''-- 3. Carga ese archivo como '' @ [CHR 0x22] @ ''Archivo 2'' @ [CHR 0x22] @ '' en DataMatch'' @ nl,
      ''-- 4. Ejecuta la comparaci'' @ [CHR 0xF3] @ ''n para generar el script de actualizaci'' @ [CHR 0xF3] @ ''n'' @ nl,
      ''-- ====================================================='' @ nl,
      ''-- RESOLUCI'' @ [CHR 0xD3] @ ''N DE PROBLEMAS:'' @ nl,
      ''-- Si obtienes menos registros de los esperados:'' @ nl,
      ''-- 1. Verifica que el formato de matr'' @ [CHR 0xED] @ ''culas en Oracle coincida con tu archivo'' @ nl,
      ''-- 2. Ejecuta: SELECT DISTINCT instalacao FROM EDESURFLX_SGD.UTRANSFORMADORA_LT WHERE ROWNUM <= 5'' @ nl,
      ''-- 3. Compara el formato con las matr'' @ [CHR 0xED] @ ''culas de tu archivo'' @ nl,
      ''-- ====================================================='' @ nl,
      ''-- FIN DEL SCRIPT'' @ nl,
      ''-- ====================================================='']"

definition noMatriculasToast :: Toast where
  "noMatriculasToast =
     \<lparr>title = ''Error'',
      description = ''No se encontraron matr'' @ [CHR 0xED] @ ''culas en el archivo 1'',
      variant = Some ''destructive''\<rparr>"

definition generateQueryScript :: "string \<Rightarrow> AppState \<Rightarrow> AppState" where
  "generateQueryScript now st =
     (case file1 st of
        None \<Rightarrow>
          st\<lparr>toasts := toasts st @
            [\<lparr>title = ''Error'', description = ''Primero debes cargar el archivo 1'',
              variant = Some ''destructive''\<rparr>]\<rparr>
      | Some f \<Rightarrow>
          (let matriculas = queryMatriculas (data f) in
           if length matriculas = 0 then st\<lparr>toasts := toasts st @ [noMatriculasToast]\<rparr>
           else
             st\<lparr>queryScript := queryScriptText now f matriculas,
                isQueryScript := True,
                toasts := toasts st @
                  [\<lparr>title = ''Script de consulta generado'',
                    description = ''Script SQL generado con '' @ showNat (length matriculas)
                      @ '' matr'' @ [CHR 0xED] @ ''culas. C'' @ [CHR 0xF3]
                      @ ''pialo y ejec'' @ [CHR 0xFA] @ ''talo en Oracle.'',
                    variant = None\<rparr>],
                completedSteps :=
                  (if 1 \<in> set (completedSteps st) then completedSteps st
                   else completedSteps st @ [1])\<rparr>))"

section \<open>Changing the sheet of a loaded file\<close>

text \<open>
  \<^verbatim>\<open>reprocessFileWithSheet\<close> (the button \<^verbatim>\<open>Aplicar\<close>) and the handler
  \<^verbatim>\<open>onValueChange\<close> of the sheet selector. Both build the new file as
  \<^verbatim>\<open>{ ...file, hojaProcesada: sheetName }\<close>.
\<close>

definition setFile :: "nat \<Rightarrow> FileData \<Rightarrow> AppState \<Rightarrow> AppState" where
  "setFile fileNumber f st = (if fileNumber = 1 then st\<lparr>file1 := Some f\<rparr> else st\<lparr>file2 := Some f\<rparr>)"

definition reprocessFileWithSheet :: "nat \<Rightarrow> string \<Rightarrow> AppState \<Rightarrow> AppState" where
  "reprocessFileWithSheet fileNumber sheetName st =
     (let currentFile = (if fileNumber = 1 then file1 st else file2 st) in
      case currentFile of
        None \<Rightarrow> st
      | Some cf \<Rightarrow>
          (let updatedFile = cf\<lparr>hojaProcesada := sheetName\<rparr>;
               st1 = setFile fileNumber updatedFile (st\<lparr>isProcessing := True\<rparr>)
           in st1\<lparr>toasts := toasts st1 @
                   [\<lparr>title = ''Hoja cambiada exitosamente'',
                     description = ''Se cambi'' @ [CHR 0xF3] @ '' a la hoja '' @ [CHR 0x22] @ sheetName
                       @ [CHR 0x22] @ '' para el archivo '' @ showNat fileNumber @ ''.'',
                     variant = None\<rparr>],
                 isProcessing := False\<rparr>))"

definition onSheetValueChange :: "nat \<Rightarrow> FileData \<Rightarrow> string \<Rightarrow> AppState \<Rightarrow> AppState" where
  "onSheetValueChange fileNum f v st = setFile fileNum (f\<lparr>hojaProcesada := v\<rparr>) st"

section \<open>The validation script of FileCompress\<close>

text \<open>
  The version of \<^verbatim>\<open>FileCompress\<close> whose \<^verbatim>\<open>generateValidationScript\<close> divides
  a long list into chunks. An element of \<^verbatim>\<open>allInstalaciones\<close>, the object
  \<^verbatim>\<open>{ instalacao, circuito }\<close>, is a pair. Each function that builds a script by
  repeated \<^verbatim>\<open>script += ...\<close> is modelled by the list of the pieces it appends, in
  order; the script is their concatenation. The two code units of the warning sign lie
  above 255 and are written as the bytes of their UTF-8 form.
\<close>

record ProcessedFile =
  file_id :: string
  file_name :: string
  file_size :: nat
  content :: string
  instalaciones :: "string list"
  circuito :: string

record FileCompressState =
  files :: "ProcessedFile list"
  compressedContent :: string
  validationScript :: string
  fc_toasts :: "Toast list"

definition CHUNK_SIZE :: nat where
  "CHUNK_SIZE = 1000"

definition allInstalacionesOf :: "ProcessedFile list \<Rightarrow> (string \<times> string) list" where
  "allInstalacionesOf fileList =
     concat (map (\<lambda>file. map (\<lambda>inst. (inst, circuito file)) (instalaciones file)) fileList)"

text \<open>\<^verbatim>\<open>xs[0]?.circuito || 'CIRCUITO'\<close>.\<close>

definition firstCircuito :: "(string \<times> string) list \<Rightarrow> string" where
  "firstCircuito xs = (case xs of [] \<Rightarrow> ''CIRCUITO'' | item # _ \<Rightarrow> strOr (snd item) ''CIRCUITO'')"

definition normalValidationPieces :: "(string \<times> string) list \<Rightarrow> string list" where
  "normalValidationPieces allInstalaciones =
     [''-- VALIDACI'' @ [CHR 0xD3] @ ''N DE EXISTENCIA EN UTRANSFORMADORA_LT'' @ nl,
      ''SELECT '' @ nl,
      ''    '' @ sq @ ''VALIDACION'' @ sq @ '' as tipo,'' @ nl,
      ''    instalacao,'' @ nl,
      ''    '' @ sq @ firstCircuito allInstalaciones @ sq @ '' as circuito_origen,'' @ nl,
      ''    CASE '' @ nl,
      ''        WHEN COUNT('' @ ''*) > 0 THEN '' @ sq @ ''EXISTE'' @ sq @ nl,
      ''        ELSE '' @ sq @ ''NO_EXISTE'' @ sq @ nl,
      ''    END as estado,'' @ nl,
      ''    COUNT('' @ ''*) as registros_encontrados'' @ nl,
      ''FROM EDESURFLX_SGD.UTRANSFORMADORA_LT '' @ nl,
      ''WHERE instalacao IN ('' @ nl]
     @ map (\<lambda>(index, item).
         ''    '' @ sq @ fst item @ sq @ (if index < length allInstalaciones - 1 then '','' else []) @ ''  -- '' @ snd item @ nl)
       (enumerate 0 allInstalaciones)
     @ ['')'' @ nl,
        ''GROUP BY instalacao'' @ nl,
        ''ORDER BY instalacao;'' @ nl @ nl,
        ''-- RESUMEN POR CIRCUITO'' @ nl,
        ''SELECT '' @ nl,
        ''    circuito_origen,'' @ nl,
        ''    COUNT('' @ ''*) as total_instalaciones,'' @ nl,
        ''    SUM(CASE WHEN estado = '' @ sq @ ''EXISTE'' @ sq @ '' THEN 1 ELSE 0 END) as existentes,'' @ nl,
        ''    SUM(CASE WHEN estado = '' @ sq @ ''NO_EXISTE'' @ sq @ '' THEN 1 ELSE 0 END) as no_existentes'' @ nl,
        ''FROM ('' @ nl,
        ''    SELECT '' @ nl,
        ''        '' @ sq @ firstCircuito allInstalaciones @ sq @ '' as circuito_origen,'' @ nl,
        ''        instalacao,'' @ nl,
        ''        CASE '' @ nl,
        ''            WHEN COUNT('' @ ''*) > 0 THEN '' @ sq @ ''EXISTE'' @ sq @ nl,
        ''            ELSE '' @ sq @ ''NO_EXISTE'' @ sq @ nl,
        ''        END as estado'' @ nl,
        ''    FROM EDESURFLX_SGD.UTRANSFORMADORA_LT '' @ nl,
        ''    WHERE instalacao IN ('' @ nl]
     @ map (\<lambda>(index, item).
         ''        '' @ sq @ fst item @ sq @ (if index < length allInstalaciones - 1 then '','' else []) @ nl)
       (enumerate 0 allInstalaciones)
     @ [''    )'' @ nl,
        ''    GROUP BY instalacao'' @ nl,
        '') subquery'' @ nl,
        ''GROUP BY circuito_origen;'' @ nl]"

definition generateNormalValidationScript :: "(string \<times> string) list \<Rightarrow> string" where
  "generateNormalValidationScript allInstalaciones = concat (normalValidationPieces allInstalaciones)"

text \<open>
  The loop \<^verbatim>\<open>for (let i = 0; i < allInstalaciones.length; i += CHUNK_SIZE)\<close> that
  pushes \<^verbatim>\<open>allInstalaciones.slice(i, i + CHUNK_SIZE)\<close>.
\<close>

function chunkLoop :: "nat \<Rightarrow> 'a list \<Rightarrow> 'a list list" where
  "chunkLoop i xs =
     (if i < length xs then take CHUNK_SIZE (drop i xs) # chunkLoop (i + CHUNK_SIZE) xs else [])"
  by pat_completeness auto
termination
  by (relation "measure (\<lambda>(i, xs). length xs - i)") (auto simp: CHUNK_SIZE_def)

declare chunkLoop.simps [simp del]

text \<open>The pieces that the body of \<^verbatim>\<open>chunks.forEach\<close> appends for one chunk.\<close>

definition unionPiece :: string where
  "unionPiece = ''UNION ALL'' @ nl @ nl"

definition inListPiece :: string where
  "inListPiece = ''WHERE instalacao IN ('' @ nl"

definition chunkPieces ::
  "(string \<times> string) list \<Rightarrow> (string \<times> string) list list \<Rightarrow> nat \<times> (string \<times> string) list \<Rightarrow> string list" where
  "chunkPieces allInstalaciones chunks ic =
     (case ic of (chunkIndex, chunk) \<Rightarrow>
        [''-- CHUNK '' @ showNat (chunkIndex + 1) @ '' ('' @ showNat (chunkIndex * CHUNK_SIZE + 1) @ ''-'' @ showNat (min ((chunkIndex + 1) * CHUNK_SIZE) (length allInstalaciones)) @ '')'' @ nl,
         ''SELECT '' @ nl,
         ''    '' @ sq @ ''VALIDACION'' @ sq @ '' as tipo,'' @ nl,
         ''    instalacao,'' @ nl,
         ''    '' @ sq @ firstCircuito chunk @ sq @ '' as circuito_origen,'' @ nl,
         ''    CASE '' @ nl,
         ''        WHEN COUNT('' @ ''*) > 0 THEN '' @ sq @ ''EXISTE'' @ sq @ nl,
         ''        ELSE '' @ sq @ ''NO_EXISTE'' @ sq @ nl,
         ''    END as estado,'' @ nl,
         ''    COUNT('' @ ''*) as registros_encontrados'' @ nl,
         ''FROM EDESURFLX_SGD.UTRANSFORMADORA_LT '' @ nl,
         ''WHERE instalacao IN ('' @ nl]
        @ map (\<lambda>(index, item).
            ''    '' @ sq @ fst item @ sq @ (if index < length chunk - 1 then '','' else []) @ ''  -- '' @ snd item @ nl)
          (enumerate 0 chunk)
        @ ['')'' @ nl,
           ''GROUP BY instalacao'' @ nl,
           ''ORDER BY instalacao'' @ nl]
        @ [if chunkIndex < length chunks - 1 then unionPiece else '';'' @ nl @ nl])"

text \<open>
  The second solution of the chunked script, the temporary table: the pieces that create it,
  one INSERT for each element of \<^verbatim>\<open>allInstalaciones\<close>, the query with the LEFT JOIN,
  and the pieces that drop it.
\<close>

definition insertPiece :: "string \<times> string \<Rightarrow> string" where
  "insertPiece item =
     ''INSERT INTO TEMP_INSTALACIONES VALUES ('' @ sq @ fst item @ sq @ '', '' @ sq @ snd item @ sq @ '');'' @ nl"

definition tempCreatePieces :: "string list" where
  "tempCreatePieces =
     [''-- SOLUCI'' @ [CHR 0xD3] @ ''N 2: TABLA TEMPORAL (Alternativa m'' @ [CHR 0xE1] @ ''s eficiente)'' @ nl,
      ''-- Crear tabla temporal'' @ nl,
      ''CREATE GLOBAL TEMPORARY TABLE TEMP_INSTALACIONES ('' @ nl,
      ''    instalacao VARCHAR2(20),'' @ nl,
      ''    circuito VARCHAR2(50)'' @ nl,
      '') ON COMMIT PRESERVE ROWS;'' @ nl @ nl]
     @ [''-- Insertar todas las instalaciones'' @ nl]"

definition tempQueryPieces :: "string list" where
  "tempQueryPieces =
     [nl @ ''-- Consulta usando JOIN (sin l'' @ [CHR 0xED] @ ''mite de 1000)'' @ nl,
      ''SELECT '' @ nl,
      ''    t.instalacao,'' @ nl,
      ''    t.circuito as circuito_origen,'' @ nl,
      ''    CASE '' @ nl,
      ''        WHEN COUNT(u.instalacao) > 0 THEN '' @ sq @ ''EXISTE'' @ sq @ nl,
      ''        ELSE '' @ sq @ ''NO_EXISTE'' @ sq @ nl,
      ''    END as estado,'' @ nl,
      ''    COUNT(u.instalacao) as registros_encontrados'' @ nl,
      ''FROM TEMP_INSTALACIONES t'' @ nl,
      ''LEFT JOIN EDESURFLX_SGD.UTRANSFORMADORA_LT u ON t.instalacao = u.instalacao'' @ nl,
      ''GROUP BY t.instalacao, t.circuito'' @ nl,
      ''ORDER BY t.circuito, t.instalacao;'' @ nl @ nl]"

definition tempDropPieces :: "string list" where
  "tempDropPieces =
     [''-- Limpiar tabla temporal'' @ nl,
      ''DROP TABLE TEMP_INSTALACIONES;'' @ nl]"

definition tempTablePieces :: "(string \<times> string) list \<Rightarrow> string list" where
  "tempTablePieces allInstalaciones =
     tempCreatePieces @ map insertPiece allInstalaciones @ tempQueryPieces @ tempDropPieces"

definition chunkedValidationPieces :: "(string \<times> string) list \<Rightarrow> string list" where
  "chunkedValidationPieces allInstalaciones =
     (let chunks = chunkLoop 0 allInstalaciones in
      [''-- SOLUCI'' @ [CHR 0xD3] @ ''N 1: DIVISI'' @ [CHR 0xD3] @ ''N EN CHUNKS (Recomendado para Oracle)'' @ nl,
       ''-- Se dividieron '' @ showNat (length allInstalaciones) @ '' instalaciones en '' @ showNat (length chunks) @ '' chunks de m'' @ [CHR 0xE1] @ ''ximo '' @ showNat CHUNK_SIZE @ nl @ nl]
      @ concat (map (chunkPieces allInstalaciones chunks) (enumerate 0 chunks))
      @ [''-- RESUMEN POR CIRCUITO (Combinando todos los chunks)'' @ nl,
         ''SELECT '' @ nl,
         ''    circuito_origen,'' @ nl,
         ''    COUNT('' @ ''*) as total_instalaciones,'' @ nl,
         ''    SUM(CASE WHEN estado = '' @ sq @ ''EXISTE'' @ sq @ '' THEN 1 ELSE 0 END) as existentes,'' @ nl,
         ''    SUM(CASE WHEN estado = '' @ sq @ ''NO_EXISTE'' @ sq @ '' THEN 1 ELSE 0 END) as no_existentes'' @ nl,
         ''FROM ('' @ nl,
         ''    -- Aqu'' @ [CHR 0xED] @ '' debes ejecutar todos los chunks anteriores y combinar resultados'' @ nl,
         ''    -- O usar la siguiente alternativa con tabla temporal'' @ nl,
         '') subquery'' @ nl,
         ''GROUP BY circuito_origen;'' @ nl @ nl]
      @ tempTablePieces allInstalaciones)"

definition generateChunkedValidationScript :: "(string \<times> string) list \<Rightarrow> string" where
  "generateChunkedValidationScript allInstalaciones = concat (chunkedValidationPieces allInstalaciones)"

definition validationPieces :: "string \<Rightarrow> ProcessedFile list \<Rightarrow> string list" where
  "validationPieces now fileList =
     (let allInstalaciones = allInstalacionesOf fileList in
      [''-- ==========================================='' @ nl,
       ''-- SCRIPT DE VALIDACI'' @ [CHR 0xD3] @ ''N GENERADO POR FILECOMPRESS'' @ nl,
       ''-- Fecha: '' @ now @ nl,
       ''-- Total archivos procesados: '' @ showNat (length fileList) @ nl,
       ''-- Total instalaciones a validar: '' @ showNat (length allInstalaciones) @ nl,
       ''-- ==========================================='' @ nl @ nl]
      @ (if length allInstalaciones > 1000 then
           [''-- '' @ [CHR 0xE2, CHR 0x9A, CHR 0xA0] @ [CHR 0xEF, CHR 0xB8, CHR 0x8F] @ ''  ADVERTENCIA: Se supera el l'' @ [CHR 0xED] @ ''mite de 1000 expresiones en Oracle IN'' @ nl,
            ''-- Se generar'' @ [CHR 0xE1] @ '' script con divisi'' @ [CHR 0xF3] @ ''n autom'' @ [CHR 0xE1] @ ''tica en chunks'' @ nl @ nl]
           @ chunkedValidationPieces allInstalaciones
         else normalValidationPieces allInstalaciones))"

text \<open>
  \<^verbatim>\<open>generateValidationScript\<close>: the script is stored with
  \<^verbatim>\<open>setValidationScript\<close>; the function shows no toast and has no other exit.
\<close>

definition generateValidationScript :: "string \<Rightarrow> ProcessedFile list \<Rightarrow> FileCompressState \<Rightarrow> FileCompressState" where
  "generateValidationScript now fileList st = st\<lparr>validationScript := concat (validationPieces now fileList)\<rparr>"

section \<open>Notions used in the statements\<close>

definition acc0 :: Acc where
  "acc0 = \<lparr>acc_differences = [], acc_matching = 0, acc_nonMatching = 0\<rparr>"

text \<open>The entries that one key of the left map, and one key of the right map, add.\<close>

definition leftEntries :: "(string \<times> row) list \<Rightarrow> string \<times> row \<Rightarrow> DiffEntry list" where
  "leftEntries M kv = acc_differences (compareLeft M acc0 kv)"

definition rightEntries :: "(string \<times> row) list \<Rightarrow> string \<times> row \<Rightarrow> DiffEntry list" where
  "rightEntries M kv = acc_differences (compareRight M acc0 kv)"

definition mkRow :: "string \<Rightarrow> string \<Rightarrow> string \<Rightarrow> row" where
  "mkRow m p c = [''MATRICULA'' \<mapsto> m, ''CODIGO POLIGONO'' \<mapsto> p, ''CODIGO CELDA'' \<mapsto> c]"

definition mkFile :: "string \<Rightarrow> row list \<Rightarrow> FileData" where
  "mkFile n rows =
     \<lparr>name = n, size_f = ''0.01 MB'', records = length rows,
      columns = [''MATRICULA'', ''CODIGO POLIGONO'', ''CODIGO CELDA''], data = rows,
      hojaProcesada = ''LPRA110'', hojasDisponibles = [''Hoja1'', ''LPRA110'']\<rparr>"

definition exLeft :: FileData where
  "exLeft = mkFile ''left.xlsx''
     [mkRow ''1'' ''P1'' ''C1'', mkRow ''2'' ''P2'' ''C2'', mkRow ''3'' ''P3'' ''C3'',
      mkRow ''4'' ''P4'' ''C4'', mkRow ''6'' ''P6'' ''C6'']"

definition exRight :: FileData where
  "exRight = mkFile ''right.xlsx''
     [mkRow ''000001'' ''Q1'' ''C1'', mkRow ''000002'' ''P2'' ''D2'', mkRow ''000003'' ''Q3'' ''D3'',
      mkRow ''000005'' ''P5'' ''C5'', mkRow ''000006'' ''P6'' ''C6'']"

text \<open>A key of both maps whose two attributes agree: the pair is counted as matching.\<close>

definition matched :: "FileData \<Rightarrow> FileData \<Rightarrow> string \<Rightarrow> bool" where
  "matched f1 f2 k =
     (case (map_of (indexByMatricula (data f1)) k, map_of (indexByMatricula (data f2)) k) of
        (Some row1, Some row2) \<Rightarrow> rowPoligono row1 = rowPoligono row2 \<and> rowCelda row1 = rowCelda row2
      | _ \<Rightarrow> False)"

text \<open>Files for the concrete evaluations.\<close>

definition exNoRows :: FileData where
  "exNoRows = mkFile ''empty.xlsx'' []"

definition exNewEmptyCelda :: FileData where
  "exNewEmptyCelda = mkFile ''new.xlsx'' [mkRow ''100000'' ''P1'' '''']"

text \<open>
  A row as \<^verbatim>\<open>processExcelFile\<close> builds it from a sheet with the headers
  \<^verbatim>\<open>ID\<close>, \<^verbatim>\<open>Matricula\<close> and \<^verbatim>\<open>CODIGO POLIGONO\<close> and the cells
  (empty), \<^verbatim>\<open># #\<close> and \<^verbatim>\<open>P1\<close>: the column mapped to MATRICULA is
  \<^verbatim>\<open>ID\<close>, and \<^verbatim>\<open>cleanValue\<close> leaves one space of the cell \<^verbatim>\<open># #\<close>.
\<close>

definition exBlank :: FileData where
  "exBlank =
     (mkFile ''blank.xlsx''
        [[''MATRICULA'' \<mapsto> '''', ''CODIGO POLIGONO'' \<mapsto> ''P1'', ''ID'' \<mapsto> '''',
          ''Matricula'' \<mapsto> '' '']])
     \<lparr>columns := [''ID'', ''Matricula'', ''CODIGO POLIGONO'']\<rparr>"



definition correctedKey :: "DiffEntry \<Rightarrow> string" where
  "correctedKey d = (if testFiveDigits (matricula d) then ''0'' @ matricula d else matricula d)"


definition exBoth :: DiffEntry where
  "exBoth =
     \<lparr>matricula = ''000003'',
      codigoPoligono = \<lparr>archivo1 = ''P3'', archivo2 = ''Q3'', necesitaActualizar = True\<rparr>,
      codigoCelda = \<lparr>archivo1 = ''C3'', archivo2 = ''D3'', necesitaActualizar = True\<rparr>,
      status = actualizar_ambos\<rparr>"

definition exState :: AppState where
  "exState =
     \<lparr>file1 = Some exLeft, file2 = Some exRight, comparison = Some (compareFiles exLeft exRight),
      scripts = [], queryScript = [], isQueryScript = False, isProcessing = False,
      completedSteps = [1, 2], toasts = []\<rparr>"

text \<open>
  The piece that opens the CREATE statement of the temporary table, a file of FileCompress
  with \<open>n\<close> identifiers, and states for the concrete evaluations. \<open>exNoIdFile\<close> is a
  loaded file whose only row has an empty MATRICULA.
\<close>

definition createTablePiece :: string where
  "createTablePiece = ''CREATE GLOBAL TEMPORARY TABLE TEMP_INSTALACIONES ('' @ nl"

definition exSqlFile :: "nat \<Rightarrow> ProcessedFile" where
  "exSqlFile n =
     \<lparr>file_id = ''1762164000000-0'', file_name = ''CT X POLIGONOS LPRA110.sql'', file_size = 4096,
      content = concat (replicate n (''UPDATE T SET X = 1 WHERE instalacao = '' @ sq @ ''000517'' @ sq
        @ '';'' @ nl)),
      instalaciones = replicate n ''000517'', circuito = ''LPRA110''\<rparr>"

definition exNow :: string where
  "exNow = ''3/11/2026, 10:00:00''"

definition exFcState :: FileCompressState where
  "exFcState = \<lparr>files = [], compressedContent = [], validationScript = [], fc_toasts = []\<rparr>"

definition exNoIdFile :: FileData where
  "exNoIdFile = mkFile ''names.xlsx'' [[''NOMBRE'' \<mapsto> ''T1'', ''MATRICULA'' \<mapsto> '''']]"

definition exNoIdState :: AppState where
  "exNoIdState =
     \<lparr>file1 = Some exNoIdFile, file2 = None, comparison = None,
      scripts = [], queryScript = ''-- old'', isQueryScript = False, isProcessing = False,
      completedSteps = [], toasts = []\<rparr>"

text \<open>
  The lines of an IN list, said as the specification says it: every identifier as a quoted
  literal, one on a line, a comma after each but the last, and after it the comment that
  names its circuit. \<open>subListLines\<close> is the list of the summary query, which has a deeper
  indentation and no comment.
\<close>

fun inListLines :: "(string \<times> string) list \<Rightarrow> string list" where
  "inListLines [] = []"
| "inListLines [item] = [''    '' @ sq @ fst item @ sq @ ''  -- '' @ snd item @ nl]"
| "inListLines (item # next # rest) =
     (''    '' @ sq @ fst item @ sq @ '','' @ ''  -- '' @ snd item @ nl) # inListLines (next # rest)"

fun subListLines :: "(string \<times> string) list \<Rightarrow> string list" where
  "subListLines [] = []"
| "subListLines [item] = [''        '' @ sq @ fst item @ sq @ nl]"
| "subListLines (item # next # rest) =
     (''        '' @ sq @ fst item @ sq @ '','' @ nl) # subListLines (next # rest)"

text \<open>
  Reading a script back: the IN lists of its validation queries, each as the pieces between
  the piece that opens the list and the piece that closes it. The state is the list being
  read, if any.
\<close>

fun inListsFrom :: "string list option \<Rightarrow> string list \<Rightarrow> string list list" where
  "inListsFrom cur [] = []"
| "inListsFrom None (p # ps) =
     (if p = ''WHERE instalacao IN ('' @ nl then inListsFrom (Some []) ps else inListsFrom None ps)"
| "inListsFrom (Some items) (p # ps) =
     (if p = '')'' @ nl then items # inListsFrom None ps else inListsFrom (Some (items @ [p])) ps)"

definition inLists :: "string list \<Rightarrow> string list list" where
  "inLists pieces = inListsFrom None pieces"

section \<open>Properties of the key normalizer\<close>

lemma trim_no_outer_space:
  "trim s = [] \<or> (\<not> isWhiteSpace (hd (trim s)) \<and> \<not> isWhiteSpace (last (trim s)))"
proof (cases "dropWhile isWhiteSpace s = []")
  case True
  show ?thesis unfolding trim_def True by simp
next
  case False
  define u where "u = dropWhile isWhiteSpace s"
  have u_ne: "u \<noteq> []" using False by (simp add: u_def)
  have hd_u: "\<not> isWhiteSpace (hd u)"
    using u_ne unfolding u_def by (rule hd_dropWhile)
  have "\<not> isWhiteSpace (last u)" if "dropWhile isWhiteSpace (rev u) = []"
  proof -
    from that have "\<forall>x\<in>set (rev u). isWhiteSpace x" by (simp add: dropWhile_eq_Nil_conv)
    then have "isWhiteSpace (hd u)" using u_ne by simp
    with hd_u show ?thesis by simp
  qed
  show ?thesis
  proof (cases "dropWhile isWhiteSpace (rev u) = []")
    case True
    have "trim s = []" unfolding trim_def using True by (simp only: u_def rev.simps)
    then show ?thesis by simp
  next
    case False
    define w where "w = dropWhile isWhiteSpace (rev u)"
    have w_ne: "w \<noteq> []" using False by (simp add: w_def)
    have hd_w: "\<not> isWhiteSpace (hd w)"
      using w_ne unfolding w_def by (rule hd_dropWhile)
    have tr: "trim s = rev w" by (simp add: trim_def u_def w_def)
    have last_tr: "last (trim s) = hd w" using w_ne by (simp add: tr last_rev)
    obtain ys where ys: "rev u = ys @ w"
      by (metis takeWhile_dropWhile_id w_def)
    then have "u = rev w @ rev ys" by (metis rev_append rev_rev_ident)
    then have "hd u = hd (rev w)" using w_ne by simp
    then have "\<not> isWhiteSpace (hd (trim s))" using hd_u by (simp add: tr)
    with hd_w last_tr show ?thesis by simp
  qed
qed

lemma trim_fixed:
  assumes "s = [] \<or> (\<not> isWhiteSpace (hd s) \<and> \<not> isWhiteSpace (last s))"
  shows "trim s = s"
proof (cases "s = []")
  case True
  then show ?thesis by (simp add: trim_def)
next
  case False
  with assms have h: "\<not> isWhiteSpace (hd s)" and l: "\<not> isWhiteSpace (last s)" by auto
  have d1: "dropWhile isWhiteSpace s = s"
    using False h by (simp add: dropWhile_eq_self_iff)
  have "hd (rev s) = last s" using False by (simp add: hd_rev)
  then have d2: "dropWhile isWhiteSpace (rev s) = rev s"
    using False l by (simp add: dropWhile_eq_self_iff)
  show ?thesis by (simp add: trim_def d1 d2)
qed

lemma trim_idem: "trim (trim s) = trim s"
  using trim_no_outer_space [of s] by (rule trim_fixed)

lemma digit_not_space: "isDigit c \<Longrightarrow> \<not> isWhiteSpace c"
  by (auto simp: isDigit_def isWhiteSpace_def)

lemma trim_digits: "list_all isDigit s \<Longrightarrow> trim s = s"
proof (rule trim_fixed, cases "s = []")
  case True
  then show "s = [] \<or> (\<not> isWhiteSpace (hd s) \<and> \<not> isWhiteSpace (last s))" by simp
next
  case False
  assume a: "list_all isDigit s"
  from False a have "isDigit (hd s)" "isDigit (last s)"
    by (simp_all add: list_all_iff)
  then show "s = [] \<or> (\<not> isWhiteSpace (hd s) \<and> \<not> isWhiteSpace (last s))"
    by (simp add: digit_not_space)
qed

lemma isDigit_zero: "isDigit (CHR ''0'')"
  by (simp add: isDigit_def)

lemma normalize_padded:
  assumes "testDigits (trim s)" "length (trim s) < 6"
  shows "normalizeMatricula s = replicate (6 - length (trim s)) (CHR ''0'') @ trim s"
  using assms by (simp add: normalizeMatricula_def Let_def)

lemma normalize_unpadded:
  assumes "\<not> (testDigits (trim s) \<and> length (trim s) < 6)"
  shows "normalizeMatricula s = trim s"
  using assms by (auto simp: normalizeMatricula_def Let_def)

lemma normalize_trimmed: "trim (normalizeMatricula s) = normalizeMatricula s"
proof (cases "testDigits (trim s) \<and> length (trim s) < 6")
  case True
  then have "list_all isDigit (normalizeMatricula s)"
    by (simp add: normalize_padded testDigits_def isDigit_zero list_all_iff)
  then show ?thesis by (rule trim_digits)
next
  case False
  then show ?thesis by (simp add: normalize_unpadded trim_idem)
qed

lemma normalize_idem: "normalizeMatricula (normalizeMatricula s) = normalizeMatricula s"
proof (cases "testDigits (trim s) \<and> length (trim s) < 6")
  case True
  then have len: "length (normalizeMatricula s) = 6"
    by (simp add: normalize_padded)
  have "\<not> (testDigits (trim (normalizeMatricula s)) \<and> length (trim (normalizeMatricula s)) < 6)"
    by (simp add: normalize_trimmed len)
  then have "normalizeMatricula (normalizeMatricula s) = trim (normalizeMatricula s)"
    by (rule normalize_unpadded)
  then show ?thesis by (simp add: normalize_trimmed)
next
  case False
  then have eq: "normalizeMatricula s = trim s" by (rule normalize_unpadded)
  have "\<not> (testDigits (trim (trim s)) \<and> length (trim (trim s)) < 6)"
    using False by (simp add: trim_idem)
  then have "normalizeMatricula (trim s) = trim (trim s)" by (rule normalize_unpadded)
  then show ?thesis by (simp add: eq trim_idem)
qed

lemma normalize_never_five_digits: "\<not> testFiveDigits (normalizeMatricula s)"
proof (cases "testDigits (trim s) \<and> length (trim s) < 6")
  case True
  then have "length (normalizeMatricula s) = 6" by (simp add: normalize_padded)
  then show ?thesis by (simp add: testFiveDigits_def)
next
  case False
  then have eq: "normalizeMatricula s = trim s" by (rule normalize_unpadded)
  show ?thesis
  proof
    assume "testFiveDigits (normalizeMatricula s)"
    then have "length (trim s) = 5" "list_all isDigit (trim s)"
      by (simp_all add: eq testFiveDigits_def)
    then have "testDigits (trim s) \<and> length (trim s) < 6"
      by (auto simp: testDigits_def)
    with False show False by simp
  qed
qed

section \<open>Properties of compareFiles\<close>

lemma map_of_mapSet: "map_of (mapSet k v m) = (map_of m)(k \<mapsto> v)"
  by (induction m) (auto simp: fun_eq_iff)

lemma keys_mapSet: "set (map fst (mapSet k v m)) = insert k (set (map fst m))"
proof (induction m)
  case Nil
  show ?case by simp
next
  case (Cons kv m)
  obtain k' v' where kv: "kv = (k', v')" by (cases kv)
  show ?case using Cons.IH by (cases "k' = k") (auto simp: kv)
qed

lemma distinct_mapSet: "distinct (map fst m) \<Longrightarrow> distinct (map fst (mapSet k v m))"
  by (induction m) (auto simp: keys_mapSet simp del: set_map)

lemma distinct_indexRow: "distinct (map fst m) \<Longrightarrow> distinct (map fst (indexRow m r))"
  by (simp add: indexRow_def Let_def distinct_mapSet)

lemma distinct_foldl_indexRow:
  "distinct (map fst m) \<Longrightarrow> distinct (map fst (foldl indexRow m rows))"
  by (induction rows arbitrary: m) (simp_all add: distinct_indexRow)

lemma distinct_indexByMatricula: "distinct (map fst (indexByMatricula rows))"
  by (simp add: indexByMatricula_def distinct_foldl_indexRow)

lemma keys_indexRow:
  "set (map fst (indexRow m r)) =
     (if truthy (rowMatricula r)
      then insert (normalizeMatricula (orEmpty (rowMatricula r))) (set (map fst m))
      else set (map fst m))"
  by (simp add: indexRow_def Let_def keys_mapSet del: set_map)

lemma keys_foldl_indexRow:
  "set (map fst (foldl indexRow m rows)) =
     set (map fst m) \<union>
     {normalizeMatricula (orEmpty (rowMatricula r)) | r. r \<in> set rows \<and> truthy (rowMatricula r)}"
proof (induction rows arbitrary: m)
  case Nil
  show ?case by simp
next
  case (Cons r rows)
  show ?case
    unfolding foldl_Cons Cons.IH keys_indexRow by auto
qed

lemma keys_indexByMatricula:
  "set (map fst (indexByMatricula rows)) =
     {normalizeMatricula (orEmpty (rowMatricula r)) | r. r \<in> set rows \<and> truthy (rowMatricula r)}"
  by (simp add: indexByMatricula_def keys_foldl_indexRow del: set_map)

lemma compareLeft_split:
  "acc_differences (compareLeft M acc kv) = acc_differences acc @ acc_differences (compareLeft M acc0 kv)"
  "acc_matching (compareLeft M acc kv) = acc_matching acc + acc_matching (compareLeft M acc0 kv)"
  "acc_nonMatching (compareLeft M acc kv) = acc_nonMatching acc + acc_nonMatching (compareLeft M acc0 kv)"
  by (auto simp: compareLeft_def acc0_def Let_def split: prod.splits option.splits)

lemma compareRight_split:
  "acc_differences (compareRight M acc kv) = acc_differences acc @ acc_differences (compareRight M acc0 kv)"
  "acc_matching (compareRight M acc kv) = acc_matching acc + acc_matching (compareRight M acc0 kv)"
  "acc_nonMatching (compareRight M acc kv) = acc_nonMatching acc + acc_nonMatching (compareRight M acc0 kv)"
  by (auto simp: compareRight_def acc0_def Let_def split: prod.splits)

lemma foldl_split:
  assumes "\<And>acc kv. acc_differences (f acc kv) = acc_differences acc @ acc_differences (f acc0 kv)"
    and "\<And>acc kv. acc_matching (f acc kv) = acc_matching acc + acc_matching (f acc0 kv)"
    and "\<And>acc kv. acc_nonMatching (f acc kv) = acc_nonMatching acc + acc_nonMatching (f acc0 kv)"
  shows "acc_differences (foldl f acc m) = acc_differences acc @ concat (map (\<lambda>kv. acc_differences (f acc0 kv)) m)"
    and "acc_matching (foldl f acc m) = acc_matching acc + sum_list (map (\<lambda>kv. acc_matching (f acc0 kv)) m)"
    and "acc_nonMatching (foldl f acc m) = acc_nonMatching acc + sum_list (map (\<lambda>kv. acc_nonMatching (f acc0 kv)) m)"
proof -
  show "acc_differences (foldl f acc m) = acc_differences acc @ concat (map (\<lambda>kv. acc_differences (f acc0 kv)) m)"
  proof (induction m arbitrary: acc)
    case Nil show ?case by simp
  next
    case (Cons kv m)
    show ?case unfolding foldl_Cons Cons.IH by (subst assms(1)) simp
  qed
  show "acc_matching (foldl f acc m) = acc_matching acc + sum_list (map (\<lambda>kv. acc_matching (f acc0 kv)) m)"
  proof (induction m arbitrary: acc)
    case Nil show ?case by simp
  next
    case (Cons kv m)
    show ?case unfolding foldl_Cons Cons.IH by (subst assms(2)) simp
  qed
  show "acc_nonMatching (foldl f acc m) = acc_nonMatching acc + sum_list (map (\<lambda>kv. acc_nonMatching (f acc0 kv)) m)"
  proof (induction m arbitrary: acc)
    case Nil show ?case by simp
  next
    case (Cons kv m)
    show ?case unfolding foldl_Cons Cons.IH by (subst assms(3)) simp
  qed
qed

lemma differences_compareFiles:
  "differences (compareFiles f1 f2) =
     concat (map (leftEntries (indexByMatricula (data f2))) (indexByMatricula (data f1)))
     @ concat (map (rightEntries (indexByMatricula (data f1))) (indexByMatricula (data f2)))"
  unfolding compareFiles_def Let_def leftEntries_def rightEntries_def
  by (simp add: foldl_split(1)[of "compareRight M" for M, OF compareRight_split]
      foldl_split(1)[of "compareLeft M" for M, OF compareLeft_split])

lemma filter_concat_key:
  assumes "distinct (map fst m)"
    and "\<And>kv d. d \<in> set (g kv) \<Longrightarrow> key d = fst kv"
  shows "filter (\<lambda>d. key d = k) (concat (map g m)) =
           (case map_of m k of Some v \<Rightarrow> g (k, v) | None \<Rightarrow> [])"
  using assms(1)
proof (induction m)
  case Nil
  show ?case by simp
next
  case (Cons kv m)
  obtain k' v' where kv: "kv = (k', v')" by (cases kv)
  have d: "distinct (map fst m)" and nk: "k' \<notin> fst ` set m" using Cons.prems by (auto simp: kv)
  have all: "\<And>d. d \<in> set (g (k', v')) \<Longrightarrow> key d = k'" using assms(2) by fastforce
  show ?case
  proof (cases "k' = k")
    case True
    have "map_of m k = None" using nk True by (simp add: map_of_eq_None_iff)
    then have "filter (\<lambda>d. key d = k) (concat (map g m)) = []" using Cons.IH[OF d] by simp
    moreover have "filter (\<lambda>d. key d = k) (g (k', v')) = g (k', v')"
      using all True by (simp add: filter_id_conv)
    ultimately show ?thesis using True by (simp add: kv)
  next
    case False
    have "filter (\<lambda>d. key d = k) (g (k', v')) = []"
      using all False by (auto simp: filter_empty_conv)
    then show ?thesis using False Cons.IH[OF d] by (simp add: kv)
  qed
qed

lemma leftEntries_key: "d \<in> set (leftEntries M kv) \<Longrightarrow> matricula d = fst kv"
  by (auto simp: leftEntries_def compareLeft_def acc0_def Let_def split: prod.splits option.splits if_splits)

lemma rightEntries_key: "d \<in> set (rightEntries M kv) \<Longrightarrow> matricula d = fst kv"
  by (auto simp: rightEntries_def compareRight_def acc0_def Let_def split: prod.splits if_splits)

lemma entries_of_key:
  "filter (\<lambda>d. matricula d = k) (differences (compareFiles f1 f2)) =
     (case map_of (indexByMatricula (data f1)) k of
        Some row1 \<Rightarrow> leftEntries (indexByMatricula (data f2)) (k, row1) | None \<Rightarrow> [])
     @ (case map_of (indexByMatricula (data f2)) k of
        Some row2 \<Rightarrow> rightEntries (indexByMatricula (data f1)) (k, row2) | None \<Rightarrow> [])"
  unfolding differences_compareFiles filter_append
  by (simp add: filter_concat_key[OF distinct_indexByMatricula leftEntries_key]
      filter_concat_key[OF distinct_indexByMatricula rightEntries_key])

lemmas eval_defs = mkRow_def mkFile_def indexByMatricula_def indexRow_def rowMatricula_def
  jsOr_def truthy_def orEmpty_def normalizeMatricula_def trim_def isWhiteSpace_def
  testDigits_def isDigit_def Let_def eval_nat_numeral

lemma exLeft_index:
  "indexByMatricula (data exLeft) =
     [(''000001'', mkRow ''1'' ''P1'' ''C1''), (''000002'', mkRow ''2'' ''P2'' ''C2''),
      (''000003'', mkRow ''3'' ''P3'' ''C3''), (''000004'', mkRow ''4'' ''P4'' ''C4''),
      (''000006'', mkRow ''6'' ''P6'' ''C6'')]"
  unfolding exLeft_def by (simp add: eval_defs)

lemma exRight_index:
  "indexByMatricula (data exRight) =
     [(''000001'', mkRow ''000001'' ''Q1'' ''C1''), (''000002'', mkRow ''000002'' ''P2'' ''D2''),
      (''000003'', mkRow ''000003'' ''Q3'' ''D3''), (''000005'', mkRow ''000005'' ''P5'' ''C5''),
      (''000006'', mkRow ''000006'' ''P6'' ''C6'')]"
  unfolding exRight_def by (simp add: eval_defs)

lemma mkRow_attrs: "rowPoligono (mkRow m p c) = p" "rowCelda (mkRow m p c) = c"
  by (auto simp: rowPoligono_def rowCelda_def mkRow_def jsOr_def truthy_def orEmpty_def)

lemma differences_origin:
  assumes "d \<in> set (differences (compareFiles f1 f2))"
  obtains (left) k row1 where "matricula d = k" "map_of (indexByMatricula (data f1)) k = Some row1"
      "d \<in> set (leftEntries (indexByMatricula (data f2)) (k, row1))"
    | (right) k row2 where "matricula d = k" "map_of (indexByMatricula (data f2)) k = Some row2"
      "d \<in> set (rightEntries (indexByMatricula (data f1)) (k, row2))"
proof -
  from assms have "d \<in> set (filter (\<lambda>e. matricula e = matricula d) (differences (compareFiles f1 f2)))"
    by simp
  then consider
      "d \<in> set (case map_of (indexByMatricula (data f1)) (matricula d) of
                   Some row1 \<Rightarrow> leftEntries (indexByMatricula (data f2)) (matricula d, row1)
                 | None \<Rightarrow> [])"
    | "d \<in> set (case map_of (indexByMatricula (data f2)) (matricula d) of
                   Some row2 \<Rightarrow> rightEntries (indexByMatricula (data f1)) (matricula d, row2)
                 | None \<Rightarrow> [])"
    unfolding entries_of_key by auto
  then show thesis
  proof cases
    case 1
    then obtain row1 where "map_of (indexByMatricula (data f1)) (matricula d) = Some row1"
      "d \<in> set (leftEntries (indexByMatricula (data f2)) (matricula d, row1))"
      by (cases "map_of (indexByMatricula (data f1)) (matricula d)") auto
    then show thesis using left by blast
  next
    case 2
    then obtain row2 where "map_of (indexByMatricula (data f2)) (matricula d) = Some row2"
      "d \<in> set (rightEntries (indexByMatricula (data f1)) (matricula d, row2))"
      by (cases "map_of (indexByMatricula (data f2)) (matricula d)") auto
    then show thesis using right by blast
  qed
qed

lemma leftEntries_present:
  "map_of M k = Some row2 \<Longrightarrow>
   leftEntries M (k, row1) =
     (if rowPoligono row1 \<noteq> rowPoligono row2 \<or> rowCelda row1 \<noteq> rowCelda row2 then
        [\<lparr>matricula = k,
          codigoPoligono = \<lparr>archivo1 = rowPoligono row1, archivo2 = rowPoligono row2,
                            necesitaActualizar = (rowPoligono row1 \<noteq> rowPoligono row2)\<rparr>,
          codigoCelda = \<lparr>archivo1 = rowCelda row1, archivo2 = rowCelda row2,
                         necesitaActualizar = (rowCelda row1 \<noteq> rowCelda row2)\<rparr>,
          status = (if rowPoligono row1 \<noteq> rowPoligono row2 \<and> rowCelda row1 \<noteq> rowCelda row2
                    then actualizar_ambos
                    else if rowPoligono row1 \<noteq> rowPoligono row2 then actualizar_poligono
                    else actualizar_celda)\<rparr>]
      else [])"
  by (simp add: leftEntries_def compareLeft_def acc0_def Let_def)

lemma leftEntries_absent:
  "map_of M k = None \<Longrightarrow>
   leftEntries M (k, row1) =
     [\<lparr>matricula = k,
       codigoPoligono = \<lparr>archivo1 = rowPoligono row1, archivo2 = [], necesitaActualizar = True\<rparr>,
       codigoCelda = \<lparr>archivo1 = rowCelda row1, archivo2 = [], necesitaActualizar = True\<rparr>,
       status = nuevo_registro\<rparr>]"
  by (simp add: leftEntries_def compareLeft_def acc0_def)

lemma rightEntries_eq:
  "rightEntries M (k, row2) =
     (if map_of M k = None then
        [\<lparr>matricula = k,
          codigoPoligono = \<lparr>archivo1 = [], archivo2 = rowPoligono row2, necesitaActualizar = False\<rparr>,
          codigoCelda = \<lparr>archivo1 = [], archivo2 = rowCelda row2, necesitaActualizar = False\<rparr>,
          status = sin_cambios\<rparr>]
      else [])"
  by (simp add: rightEntries_def compareRight_def acc0_def mapHas_def)

lemma counts_left:
  "acc_matching (compareLeft M acc0 kv) = (if leftEntries M kv = [] then 1 else 0)"
  "acc_nonMatching (compareLeft M acc0 kv) = length (leftEntries M kv)"
  by (auto simp: leftEntries_def compareLeft_def acc0_def Let_def split: prod.splits option.splits)

lemma counts_right:
  "acc_matching (compareRight M acc0 kv) = 0"
  "acc_nonMatching (compareRight M acc0 kv) = length (rightEntries M kv)"
  by (auto simp: rightEntries_def compareRight_def acc0_def Let_def split: prod.splits)

lemma sum_list_if_filter: "(\<Sum>x\<leftarrow>xs. if P x then 1 else 0) = length (filter P xs)"
  by (induction xs) auto

lemma matching_compareFiles:
  "matching (compareFiles f1 f2) =
     length (filter (\<lambda>kv. leftEntries (indexByMatricula (data f2)) kv = []) (indexByMatricula (data f1)))"
  unfolding compareFiles_def Let_def
  by (simp add: foldl_split(2)[of "compareRight M" for M, OF compareRight_split]
      foldl_split(2)[of "compareLeft M" for M, OF compareLeft_split]
      counts_left counts_right sum_list_if_filter)

lemma nonMatching_compareFiles:
  "nonMatching (compareFiles f1 f2) = length (differences (compareFiles f1 f2))"
  unfolding differences_compareFiles
  unfolding compareFiles_def Let_def
  by (simp add: foldl_split(3)[of "compareRight M" for M, OF compareRight_split]
      foldl_split(3)[of "compareLeft M" for M, OF compareLeft_split]
      counts_left counts_right length_concat comp_def)

lemma leftEntries_Nil_iff:
  "map_of (indexByMatricula (data f1)) k = Some row1 \<Longrightarrow>
     leftEntries (indexByMatricula (data f2)) (k, row1) = [] \<longleftrightarrow> matched f1 f2 k"
  by (auto simp: matched_def leftEntries_def compareLeft_def acc0_def Let_def split: option.splits)

lemma compareFiles_complete:
  assumes "k \<in> fst ` set (indexByMatricula (data f1)) \<union> fst ` set (indexByMatricula (data f2))"
  shows "length (filter (\<lambda>d. matricula d = k) (differences (compareFiles f1 f2)))
           = (if matched f1 f2 k then 0 else 1)"
proof -
  from assms have "map_of (indexByMatricula (data f1)) k \<noteq> None \<or> map_of (indexByMatricula (data f2)) k \<noteq> None"
    by (auto simp: map_of_eq_None_iff)
  then show ?thesis
    unfolding entries_of_key
    by (auto simp: matched_def leftEntries_def rightEntries_def compareLeft_def compareRight_def
        acc0_def mapHas_def Let_def split: option.splits)
qed

lemma matching_count:
  "matching (compareFiles f1 f2) = card {k. matched f1 f2 k}"
proof -
  let ?M1 = "indexByMatricula (data f1)" and ?M2 = "indexByMatricula (data f2)"
  have d: "distinct (map fst ?M1)" by (rule distinct_indexByMatricula)
  have eq: "filter (\<lambda>kv. leftEntries ?M2 kv = []) ?M1 = filter (\<lambda>kv. matched f1 f2 (fst kv)) ?M1"
  proof (rule filter_cong [OF refl])
    fix kv assume "kv \<in> set ?M1"
    then have "(fst kv, snd kv) \<in> set ?M1" by simp
    with d have "map_of ?M1 (fst kv) = Some (snd kv)" by (rule map_of_is_SomeI)
    from leftEntries_Nil_iff [OF this, of f2]
    show "(leftEntries ?M2 kv = []) = matched f1 f2 (fst kv)" by simp
  qed
  have "length (filter (\<lambda>kv. matched f1 f2 (fst kv)) ?M1) = length (filter (matched f1 f2) (map fst ?M1))"
    by (simp add: filter_map comp_def)
  also have "\<dots> = card (set (filter (matched f1 f2) (map fst ?M1)))"
    using d by (metis distinct_card distinct_filter)
  also have "set (filter (matched f1 f2) (map fst ?M1)) = {k. matched f1 f2 k}"
    by (auto simp: matched_def map_of_eq_None_iff image_iff split: option.splits)
  finally show ?thesis by (simp add: matching_compareFiles eq)
qed

lemma exNoRows_index: "indexByMatricula (data exNoRows) = []"
  by (simp add: exNoRows_def mkFile_def indexByMatricula_def)

lemma exDifferences:
  "differences (compareFiles exLeft exRight) =
     [\<lparr>matricula = ''000001'',
       codigoPoligono = \<lparr>archivo1 = ''P1'', archivo2 = ''Q1'', necesitaActualizar = True\<rparr>,
       codigoCelda = \<lparr>archivo1 = ''C1'', archivo2 = ''C1'', necesitaActualizar = False\<rparr>,
       status = actualizar_poligono\<rparr>,
      \<lparr>matricula = ''000002'',
       codigoPoligono = \<lparr>archivo1 = ''P2'', archivo2 = ''P2'', necesitaActualizar = False\<rparr>,
       codigoCelda = \<lparr>archivo1 = ''C2'', archivo2 = ''D2'', necesitaActualizar = True\<rparr>,
       status = actualizar_celda\<rparr>,
      \<lparr>matricula = ''000003'',
       codigoPoligono = \<lparr>archivo1 = ''P3'', archivo2 = ''Q3'', necesitaActualizar = True\<rparr>,
       codigoCelda = \<lparr>archivo1 = ''C3'', archivo2 = ''D3'', necesitaActualizar = True\<rparr>,
       status = actualizar_ambos\<rparr>,
      \<lparr>matricula = ''000004'',
       codigoPoligono = \<lparr>archivo1 = ''P4'', archivo2 = [], necesitaActualizar = True\<rparr>,
       codigoCelda = \<lparr>archivo1 = ''C4'', archivo2 = [], necesitaActualizar = True\<rparr>,
       status = nuevo_registro\<rparr>,
      \<lparr>matricula = ''000005'',
       codigoPoligono = \<lparr>archivo1 = [], archivo2 = ''P5'', necesitaActualizar = False\<rparr>,
       codigoCelda = \<lparr>archivo1 = [], archivo2 = ''C5'', necesitaActualizar = False\<rparr>,
       status = sin_cambios\<rparr>]"
  unfolding differences_compareFiles exLeft_index exRight_index
  by (simp add: leftEntries_present leftEntries_absent rightEntries_eq mkRow_attrs)

section \<open>Properties of generateScripts\<close>


lemma updateStatement_None_iff: "updateStatement d = None \<longleftrightarrow> setClauses d = []"
  by (simp add: updateStatement_def Let_def)

lemma updateStatement_Some:
  "setClauses d \<noteq> [] \<Longrightarrow>
   updateStatement d =
     Some (''UPDATE EDESURFLX_SGD.UTRANSFORMADORA_LT SET '' @ joinWith '', '' (setClauses d)
           @ '' WHERE instalacao = '' @ sq @ correctedKey d @ sq @ '';'')"
  by (simp add: updateStatement_def correctedKey_def Let_def)





lemma differences_key_normalized:
  assumes "d \<in> set (differences (compareFiles f1 f2))"
  shows "\<exists>raw. matricula d = normalizeMatricula raw"
proof -
  have k: "\<exists>raw. k = normalizeMatricula raw" if "map_of (indexByMatricula rows) k = Some r" for rows k r
  proof -
    from that have "k \<in> set (map fst (indexByMatricula rows))"
      by (metis map_of_eq_None_iff option.distinct(1) set_map)
    then show ?thesis unfolding keys_indexByMatricula by auto
  qed
  from assms show ?thesis
    by (cases rule: differences_origin) (use k in blast)+
qed

lemma differences_correctedKey:
  "d \<in> set (differences (compareFiles f1 f2)) \<Longrightarrow> correctedKey d = matricula d"
  using differences_key_normalized [of d f1 f2] normalize_never_five_digits
  by (auto simp: correctedKey_def)

lemma setClauses_subset:
  "set (setClauses d) \<subseteq>
     {''cod_poligono = '' @ archivo1 (codigoPoligono d), ''cod_celda = '' @ archivo1 (codigoCelda d)}"
  by (auto simp: setClauses_def split: if_splits)

section \<open>Properties of the validation script\<close>

lemma chunkLoop_concat: "concat (chunkLoop i xs) = drop i xs"
proof (induction i xs rule: chunkLoop.induct)
  case (1 i xs)
  show ?case
  proof (cases "i < length xs")
    case True
    have a: "take CHUNK_SIZE (drop i xs) @ drop CHUNK_SIZE (drop i xs) = drop i xs"
      by (rule append_take_drop_id)
    have b: "drop CHUNK_SIZE (drop i xs) = drop (i + CHUNK_SIZE) xs"
      by (simp only: drop_drop add.commute)
    have c: "chunkLoop i xs = take CHUNK_SIZE (drop i xs) # chunkLoop (i + CHUNK_SIZE) xs"
      using True by (subst chunkLoop.simps) (simp only: if_True)
    show ?thesis
      unfolding c concat.simps 1 [OF True] using a b by (simp only:)
  next
    case False
    have c: "chunkLoop i xs = []"
      using False by (subst chunkLoop.simps) (simp only: if_False)
    show ?thesis unfolding c using False by simp
  qed
qed

lemma chunkLoop_lengths:
  "map length (chunkLoop i xs) =
     replicate ((length xs - i) div CHUNK_SIZE) CHUNK_SIZE
     @ (if (length xs - i) mod CHUNK_SIZE = 0 then [] else [(length xs - i) mod CHUNK_SIZE])"
proof (induction i xs rule: chunkLoop.induct)
  case (1 i xs)
  let ?m = "length xs - i"
  have pos: "0 < CHUNK_SIZE" by (simp add: CHUNK_SIZE_def)
  show ?case
  proof (cases "i < length xs")
    case False
    have c: "chunkLoop i xs = []"
      using False by (subst chunkLoop.simps) (simp only: if_False)
    from False have "?m = 0" by simp
    then show ?thesis unfolding c by simp
  next
    case True
    have c: "chunkLoop i xs = take CHUNK_SIZE (drop i xs) # chunkLoop (i + CHUNK_SIZE) xs"
      using True by (subst chunkLoop.simps) (simp only: if_True)
    note IH = 1 [OF True]
    have m': "length xs - (i + CHUNK_SIZE) = ?m - CHUNK_SIZE" by simp
    show ?thesis
    proof (cases "CHUNK_SIZE \<le> ?m")
      case big: True
      have l: "length (take CHUNK_SIZE (drop i xs)) = CHUNK_SIZE" using big by simp
      have d: "?m div CHUNK_SIZE = Suc ((?m - CHUNK_SIZE) div CHUNK_SIZE)"
        using pos big by (rule le_div_geq)
      have r: "?m mod CHUNK_SIZE = (?m - CHUNK_SIZE) mod CHUNK_SIZE"
        using big by (rule le_mod_geq)
      show ?thesis
        unfolding c list.map l IH m' d r replicate_Suc by (simp only: append_Cons)
    next
      case small: False
      then have lt: "?m < CHUNK_SIZE" by simp
      have l: "length (take CHUNK_SIZE (drop i xs)) = ?m" using lt by simp
      have "\<not> i + CHUNK_SIZE < length xs" using lt by simp
      then have e: "chunkLoop (i + CHUNK_SIZE) xs = []"
        by (subst chunkLoop.simps) (simp only: if_False)
      have d: "?m div CHUNK_SIZE = 0" "?m mod CHUNK_SIZE = ?m"
        using lt by simp_all
      have nz: "?m \<noteq> 0" using True by simp
      show ?thesis
        unfolding c list.map l e d using nz by simp
    qed
  qed
qed

lemma chunkLoop_sizes:
  assumes "c \<in> set (chunkLoop 0 xs)"
  shows "0 < length c \<and> length c \<le> CHUNK_SIZE"
proof -
  have pos: "0 < CHUNK_SIZE" by (simp add: CHUNK_SIZE_def)
  from assms have "length c \<in> set (map length (chunkLoop 0 xs))" by simp
  then have "length c = CHUNK_SIZE \<or> (length c = length xs mod CHUNK_SIZE \<and> length xs mod CHUNK_SIZE \<noteq> 0)"
    unfolding chunkLoop_lengths by (auto split: if_splits)
  moreover have "length xs mod CHUNK_SIZE \<le> CHUNK_SIZE"
    using pos by (simp add: less_imp_le)
  ultimately show ?thesis using pos by auto
qed

lemma chunkLoop_1001:
  assumes "length xs = 1001"
  shows "map length (chunkLoop 0 xs) = [1000, 1]"
proof -
  have a: "(1001::nat) div 1000 = 1" "(1001::nat) mod 1000 = 1" by simp_all
  show ?thesis
    unfolding chunkLoop_lengths by (simp add: assms CHUNK_SIZE_def a)
qed

lemma chunkLoop_le_1000:
  assumes "0 < length xs" "length xs \<le> 1000"
  shows "chunkLoop 0 xs = [xs]"
proof -
  have "\<not> 0 + CHUNK_SIZE < length xs" using assms by (simp add: CHUNK_SIZE_def)
  then have e: "chunkLoop (0 + CHUNK_SIZE) xs = []"
    by (subst chunkLoop.simps) (simp only: if_False)
  have c: "chunkLoop 0 xs = take CHUNK_SIZE (drop 0 xs) # chunkLoop (0 + CHUNK_SIZE) xs"
    using assms(1) by (subst chunkLoop.simps) (simp only: if_True)
  show ?thesis unfolding c e using assms by (simp add: CHUNK_SIZE_def)
qed

lemma count_list_concat: "count_list (concat xss) p = (\<Sum>xs\<leftarrow>xss. count_list xs p)"
  by (induction xss) simp_all

lemma count_list_map_0: "(\<And>y. y \<in> set ys \<Longrightarrow> f y \<noteq> p) \<Longrightarrow> count_list (map f ys) p = 0"
  by (simp add: count_list_0_iff image_iff) blast

lemma filter_lt_upt: "length (filter (\<lambda>i. i < m) [0..<n]) = min m n"
  by (induction n) auto

lemma sum_list_enumerate_lt:
  "(\<Sum>ic\<leftarrow>enumerate 0 cs. if fst ic < m then 1 else 0) = min m (length cs)"
proof -
  have e: "[0..<length cs] = map fst (enumerate 0 cs)"
    by (simp add: map_fst_enumerate)
  have "(\<Sum>ic\<leftarrow>enumerate 0 cs. if fst ic < m then 1 else (0::nat))
          = (\<Sum>i\<leftarrow>[0..<length cs]. if i < m then 1 else 0)"
    unfolding e map_map comp_def by (rule refl)
  also have "\<dots> = length (filter (\<lambda>i. i < m) [0..<length cs])"
    by (rule sum_list_if_filter)
  also have "\<dots> = min m (length cs)"
    by (rule filter_lt_upt)
  finally show ?thesis .
qed

lemma chunkPieces_inList: "count_list (chunkPieces al chunks ic) inListPiece = 1"
proof -
  obtain i c where ic: "ic = (i, c)" by (cases ic)
  show ?thesis
    unfolding ic chunkPieces_def prod.case count_list_append
    by (subst count_list_map_0) (auto simp: inListPiece_def unionPiece_def)
qed

lemma chunkPieces_union:
  "count_list (chunkPieces al chunks ic) unionPiece = (if fst ic < length chunks - 1 then 1 else 0)"
proof -
  obtain i c where ic: "ic = (i, c)" by (cases ic)
  show ?thesis
    unfolding ic chunkPieces_def prod.case count_list_append
    by (subst count_list_map_0) (auto simp: inListPiece_def unionPiece_def)
qed

lemma tempTable_counts:
  "count_list (tempTablePieces al) inListPiece = 0"
  "count_list (tempTablePieces al) unionPiece = 0"
  unfolding tempTablePieces_def count_list_append
  by (subst count_list_map_0;
      auto simp: inListPiece_def unionPiece_def insertPiece_def tempCreatePieces_def
        tempQueryPieces_def tempDropPieces_def)+

lemma chunked_inList:
  "count_list (chunkedValidationPieces al) inListPiece = length (chunkLoop 0 al)"
  unfolding chunkedValidationPieces_def Let_def count_list_append count_list_concat
  by (simp add: comp_def chunkPieces_inList tempTable_counts sum_list_triv)
    (simp add: inListPiece_def)

lemma chunked_union:
  "count_list (chunkedValidationPieces al) unionPiece = length (chunkLoop 0 al) - 1"
proof -
  have "(\<Sum>ic\<leftarrow>enumerate 0 (chunkLoop 0 al).
           count_list (chunkPieces al (chunkLoop 0 al) ic) unionPiece)
        = min (length (chunkLoop 0 al) - 1) (length (chunkLoop 0 al))"
    unfolding chunkPieces_union by (rule sum_list_enumerate_lt)
  then show ?thesis
    unfolding chunkedValidationPieces_def Let_def count_list_append count_list_concat
    by (simp add: comp_def tempTable_counts) (simp add: unionPiece_def)
qed

lemma normal_counts:
  "count_list (normalValidationPieces al) inListPiece = 1"
  "count_list (normalValidationPieces al) unionPiece = 0"
  unfolding normalValidationPieces_def count_list_append
  by (subst count_list_map_0, (auto simp: inListPiece_def unionPiece_def)[1],
      subst count_list_map_0, (auto simp: inListPiece_def unionPiece_def)[1],
      simp add: inListPiece_def unionPiece_def)+

lemma validationPieces_normal:
  assumes "length (allInstalacionesOf fileList) \<le> 1000"
  shows "count_list (validationPieces now fileList) inListPiece = 1"
    and "count_list (validationPieces now fileList) unionPiece = 0"
    and "createTablePiece \<notin> set (validationPieces now fileList)"
proof -
  have le: "\<not> 1000 < length (allInstalacionesOf fileList)" using assms by simp
  show "count_list (validationPieces now fileList) inListPiece = 1"
    unfolding validationPieces_def Let_def if_not_P [OF le] count_list_append normal_counts
    by (simp add: inListPiece_def)
  show "count_list (validationPieces now fileList) unionPiece = 0"
    unfolding validationPieces_def Let_def if_not_P [OF le] count_list_append normal_counts
    by (simp add: unionPiece_def)
  show "createTablePiece \<notin> set (validationPieces now fileList)"
    unfolding validationPieces_def Let_def if_not_P [OF le] normalValidationPieces_def
    by (auto simp: createTablePiece_def)
qed

lemma validationPieces_chunked:
  assumes "1000 < length (allInstalacionesOf fileList)"
  shows "count_list (validationPieces now fileList) inListPiece
           = length (chunkLoop 0 (allInstalacionesOf fileList))"
    and "count_list (validationPieces now fileList) unionPiece
           = length (chunkLoop 0 (allInstalacionesOf fileList)) - 1"
    and "\<exists>pre. validationPieces now fileList =
           pre @ tempCreatePieces @ map insertPiece (allInstalacionesOf fileList)
           @ tempQueryPieces @ tempDropPieces"
proof -
  show "count_list (validationPieces now fileList) inListPiece
           = length (chunkLoop 0 (allInstalacionesOf fileList))"
    unfolding validationPieces_def Let_def if_P [OF assms] count_list_append chunked_inList
    by (simp add: inListPiece_def)
  show "count_list (validationPieces now fileList) unionPiece
           = length (chunkLoop 0 (allInstalacionesOf fileList)) - 1"
    unfolding validationPieces_def Let_def if_P [OF assms] count_list_append chunked_union
    by (simp add: unionPiece_def)
  show "\<exists>pre. validationPieces now fileList =
           pre @ tempCreatePieces @ map insertPiece (allInstalacionesOf fileList)
           @ tempQueryPieces @ tempDropPieces"
    unfolding validationPieces_def Let_def if_P [OF assms] chunkedValidationPieces_def
      tempTablePieces_def
    by (metis append.assoc)
qed

lemma exSqlFile_length: "length (allInstalacionesOf [exSqlFile n]) = n"
  by (simp add: allInstalacionesOf_def exSqlFile_def)

lemma chunkLoop_index:
  "chunkLoop j xs =
     map (\<lambda>i. take CHUNK_SIZE (drop (j + i * CHUNK_SIZE) xs))
       [0..<(length xs - j + (CHUNK_SIZE - 1)) div CHUNK_SIZE]"
proof (induction j xs rule: chunkLoop.induct)
  case (1 j xs)
  let ?C = CHUNK_SIZE
  let ?f = "\<lambda>i. take ?C (drop (j + i * ?C) xs)"
  have pos: "0 < ?C" by (simp add: CHUNK_SIZE_def)
  show ?case
  proof (cases "j < length xs")
    case False
    have c: "chunkLoop j xs = []"
      using False by (subst chunkLoop.simps) (simp only: if_False)
    from False have z: "length xs - j = 0" by simp
    have "(0 + (?C - 1)) div ?C = 0" using pos by simp
    then show ?thesis unfolding c z by simp
  next
    case True
    have c: "chunkLoop j xs = take ?C (drop j xs) # chunkLoop (j + ?C) xs"
      using True by (subst chunkLoop.simps) (simp only: if_True)
    let ?m' = "(length xs - (j + ?C) + (?C - 1)) div ?C"
    have m: "(length xs - j + (?C - 1)) div ?C = Suc ?m'"
    proof (cases "?C \<le> length xs - j")
      case True
      then have "length xs - j + (?C - 1) = (length xs - (j + ?C) + (?C - 1)) + ?C" by simp
      then show ?thesis using pos by (simp only: div_add_self2)
    next
      case False
      then have z: "length xs - (j + ?C) = 0" by simp
      have z': "?m' = 0" unfolding z using pos by simp
      have "?C * 1 \<le> length xs - j + (?C - 1)" using \<open>j < length xs\<close> pos by simp
      moreover have "length xs - j + (?C - 1) < ?C * Suc 1" using False pos by simp
      ultimately have "(length xs - j + (?C - 1)) div ?C = 1"
        by (rule Euclidean_Rings.div_nat_eqI)
      then show ?thesis unfolding z' by simp
    qed
    have s: "map ?f [0..<Suc ?m'] = ?f 0 # map (\<lambda>i. ?f (Suc i)) [0..<?m']"
      by (rule map_upt_Suc)
    have f0: "?f 0 = take ?C (drop j xs)" by simp
    have fs: "(\<lambda>i. ?f (Suc i)) = (\<lambda>i. take ?C (drop (j + ?C + i * ?C) xs))"
      by (simp add: add.assoc)
    show ?thesis
      unfolding c m s f0 fs using "1" [OF True] by (simp only:)
  qed
qed

lemma chunkLoop_0_index:
  "chunkLoop 0 xs =
     map (\<lambda>i. take 1000 (drop (i * 1000) xs)) [0..<(length xs + 999) div 1000]"
  using chunkLoop_index [of 0 xs] by (simp add: CHUNK_SIZE_def)

lemma enumerate_map_upt: "enumerate 0 (map f [0..<m]) = map (\<lambda>i. (i, f i)) [0..<m]"
  by (rule nth_equalityI) (simp_all add: nth_enumerate_eq)

lemma item_lines_from:
  "map (\<lambda>(index, item). ''    '' @ sq @ fst item @ sq
          @ (if index < k + length c - 1 then '','' else []) @ ''  -- '' @ snd item @ nl)
     (enumerate k c) = inListLines c"
proof (induction c arbitrary: k rule: inListLines.induct)
  case 1
  show ?case by simp
next
  case (2 item)
  show ?case by simp
next
  case (3 item nxt rest)
  have "Suc k + length (nxt # rest) - 1 = k + length (item # nxt # rest) - 1" by simp
  with 3 [of "Suc k"] show ?case by simp
qed

lemma item_lines:
  "map (\<lambda>(index, item). ''    '' @ sq @ fst item @ sq
          @ (if index < length c - 1 then '','' else []) @ ''  -- '' @ snd item @ nl)
     (enumerate 0 c) = inListLines c"
  using item_lines_from [of 0 c] by simp

lemma sub_lines_from:
  "map (\<lambda>(index, item). ''        '' @ sq @ fst item @ sq
          @ (if index < k + length c - 1 then '','' else []) @ nl)
     (enumerate k c) = subListLines c"
proof (induction c arbitrary: k rule: subListLines.induct)
  case 1
  show ?case by simp
next
  case (2 item)
  show ?case by simp
next
  case (3 item nxt rest)
  have "Suc k + length (nxt # rest) - 1 = k + length (item # nxt # rest) - 1" by simp
  with 3 [of "Suc k"] show ?case by simp
qed

lemma sub_lines:
  "map (\<lambda>(index, item). ''        '' @ sq @ fst item @ sq
          @ (if index < length c - 1 then '','' else []) @ nl)
     (enumerate 0 c) = subListLines c"
  using sub_lines_from [of 0 c] by simp

lemma inListLines_not_special:
  "'')'' @ nl \<notin> set (inListLines c)" "''WHERE instalacao IN ('' @ nl \<notin> set (inListLines c)"
  by (induction c rule: inListLines.induct) auto

lemma inListsFrom_skip:
  "''WHERE instalacao IN ('' @ nl \<notin> set xs \<Longrightarrow> inListsFrom None (xs @ ys) = inListsFrom None ys"
  by (induction xs) auto

lemma subListLines_not_open: "''WHERE instalacao IN ('' @ nl \<notin> set (subListLines c)"
  by (induction c rule: subListLines.induct) auto

lemma inListsFrom_step:
  "[CHR '')'', CHR 0x0A] \<notin> set items \<Longrightarrow>
   inListsFrom (Some cur) (items @ p # rest) =
     (if p = [CHR '')'', CHR 0x0A] then (cur @ items) # inListsFrom None rest
      else inListsFrom (Some (cur @ items @ [p])) rest)"
  by (induction items arbitrary: cur) auto

lemma inListsFrom_map_skip:
  "(\<And>x. f x \<noteq> ''WHERE instalacao IN ('' @ nl) \<Longrightarrow>
   inListsFrom None (map f xs @ ys) = inListsFrom None ys"
  by (induction xs) auto

lemma digitChar_simps:
  "digitChar 0 = CHR ''0''" "digitChar (Suc 0) = CHR ''1''" "digitChar 2 = CHR ''2''"
  by (simp_all add: digitChar_def eval_nat_numeral)

lemma showNat_examples:
  "showNat 1 = ''1''" "showNat 2 = ''2''" "showNat 1000 = ''1000''" "showNat 1001 = ''1001''"
  by (simp_all add: showNat.simps digitChar_simps)

lemma exSqlFile_all: "allInstalacionesOf [exSqlFile n] = replicate n (''000517'', ''LPRA110'')"
  by (simp add: allInstalacionesOf_def exSqlFile_def map_replicate_const)

lemma firstCircuito_example: "firstCircuito ((''000517'', ''LPRA110'') # rest) = ''LPRA110''"
  by (simp add: firstCircuito_def strOr_def)

section \<open>Properties of generateQueryScript and of the sheet selector\<close>

lemma generateQueryScript_none:
  "file1 st = None \<Longrightarrow>
   generateQueryScript now st =
     st\<lparr>toasts := toasts st @
        [\<lparr>title = ''Error'', description = ''Primero debes cargar el archivo 1'',
          variant = Some ''destructive''\<rparr>]\<rparr>"
  by (simp add: generateQueryScript_def)

lemma generateQueryScript_zero:
  "file1 st = Some f \<Longrightarrow> queryMatriculas (data f) = [] \<Longrightarrow>
   generateQueryScript now st = st\<lparr>toasts := toasts st @ [noMatriculasToast]\<rparr>"
  by (simp add: generateQueryScript_def)

lemma generateQueryScript_some:
  "file1 st = Some f \<Longrightarrow> queryMatriculas (data f) \<noteq> [] \<Longrightarrow>
   queryScript (generateQueryScript now st) = queryScriptText now f (queryMatriculas (data f))
   \<and> isQueryScript (generateQueryScript now st)"
  by (simp add: generateQueryScript_def Let_def)

lemma exNoId_matriculas: "queryMatriculas (data exNoIdFile) = []"
  by (simp add: exNoIdFile_def mkFile_def queryMatriculas_def queryMatricula_def
      rowQueryMatricula_def jsOr_def truthy_def Let_def)

lemma exLeft_matriculas:
  "queryMatriculas (data exLeft) = [''000001'', ''000002'', ''000003'', ''000004'', ''000006'']"
  by (simp add: exLeft_def mkFile_def mkRow_def queryMatriculas_def queryMatricula_def
      rowQueryMatricula_def jsOr_def truthy_def orEmpty_def normalizeMatricula_def trim_def
      isWhiteSpace_def testDigits_def isDigit_def Let_def eval_nat_numeral)

lemma reprocessFileWithSheet_file1:
  "file1 (reprocessFileWithSheet 1 sheetName st) = map_option (\<lambda>f. f\<lparr>hojaProcesada := sheetName\<rparr>) (file1 st)"
  by (cases "file1 st") (simp_all add: reprocessFileWithSheet_def setFile_def Let_def)

lemma reprocessFileWithSheet_file2:
  "file2 (reprocessFileWithSheet 2 sheetName st) = map_option (\<lambda>f. f\<lparr>hojaProcesada := sheetName\<rparr>) (file2 st)"
  by (cases "file2 st") (simp_all add: reprocessFileWithSheet_def setFile_def Let_def)

lemma set_queryMatriculas:
  "set (queryMatriculas rows) =
     {normalizeMatricula (orEmpty (rowQueryMatricula r)) | r.
        r \<in> set rows \<and> truthy (rowQueryMatricula r)
        \<and> normalizeMatricula (orEmpty (rowQueryMatricula r)) \<noteq> []}"
proof -
  have q: "queryMatriculas rows =
      map (\<lambda>r. normalizeMatricula (orEmpty (rowQueryMatricula r)))
        (filter (\<lambda>r. truthy (rowQueryMatricula r)
                   \<and> normalizeMatricula (orEmpty (rowQueryMatricula r)) \<noteq> []) rows)"
    by (induction rows)
      (auto simp: queryMatriculas_def queryMatricula_def Let_def truthy_def orEmpty_def)
  show ?thesis unfolding q by auto
qed

section \<open>The claims\<close>

text \<open>
  C1. For every pair of files and every key: a key of both maps whose CODIGO POLIGONO alone
  differs has one difference, of status \<open>actualizar_poligono\<close>; when CODIGO CELDA alone
  differs, one of status \<open>actualizar_celda\<close>; when both differ, one of status
  \<open>actualizar_ambos\<close>; a key of the left map only has one difference of status
  \<open>nuevo_registro\<close>; a key of the right map only has one of status \<open>sin_cambios\<close>;
  and a key of both maps whose attributes agree has no difference at all.
\<close>

theorem compareFiles_classification:
  "(map_of (indexByMatricula (data f1)) k = Some row1 \<and> map_of (indexByMatricula (data f2)) k = Some row2
      \<and> rowPoligono row1 \<noteq> rowPoligono row2 \<and> rowCelda row1 = rowCelda row2
    \<longrightarrow> map status (filter (\<lambda>d. matricula d = k) (differences (compareFiles f1 f2))) = [actualizar_poligono])
   \<and> (map_of (indexByMatricula (data f1)) k = Some row1 \<and> map_of (indexByMatricula (data f2)) k = Some row2
      \<and> rowPoligono row1 = rowPoligono row2 \<and> rowCelda row1 \<noteq> rowCelda row2
    \<longrightarrow> map status (filter (\<lambda>d. matricula d = k) (differences (compareFiles f1 f2))) = [actualizar_celda])
   \<and> (map_of (indexByMatricula (data f1)) k = Some row1 \<and> map_of (indexByMatricula (data f2)) k = Some row2
      \<and> rowPoligono row1 \<noteq> rowPoligono row2 \<and> rowCelda row1 \<noteq> rowCelda row2
    \<longrightarrow> map status (filter (\<lambda>d. matricula d = k) (differences (compareFiles f1 f2))) = [actualizar_ambos])
   \<and> (map_of (indexByMatricula (data f1)) k = Some row1 \<and> map_of (indexByMatricula (data f2)) k = None
    \<longrightarrow> map status (filter (\<lambda>d. matricula d = k) (differences (compareFiles f1 f2))) = [nuevo_registro])
   \<and> (map_of (indexByMatricula (data f1)) k = None \<and> map_of (indexByMatricula (data f2)) k = Some row2
    \<longrightarrow> map status (filter (\<lambda>d. matricula d = k) (differences (compareFiles f1 f2))) = [sin_cambios])
   \<and> (map_of (indexByMatricula (data f1)) k = Some row1 \<and> map_of (indexByMatricula (data f2)) k = Some row2
      \<and> rowPoligono row1 = rowPoligono row2 \<and> rowCelda row1 = rowCelda row2
    \<longrightarrow> filter (\<lambda>d. matricula d = k) (differences (compareFiles f1 f2)) = [])"
  unfolding entries_of_key
  by (simp add: leftEntries_def rightEntries_def compareLeft_def compareRight_def acc0_def
      mapHas_def Let_def)

theorem compareFiles_classification_witness:
  "map status (filter (\<lambda>d. matricula d = ''000001'') (differences (compareFiles exLeft exRight))) = [actualizar_poligono]
   \<and> map status (filter (\<lambda>d. matricula d = ''000002'') (differences (compareFiles exLeft exRight))) = [actualizar_celda]
   \<and> map status (filter (\<lambda>d. matricula d = ''000003'') (differences (compareFiles exLeft exRight))) = [actualizar_ambos]
   \<and> map status (filter (\<lambda>d. matricula d = ''000004'') (differences (compareFiles exLeft exRight))) = [nuevo_registro]
   \<and> map status (filter (\<lambda>d. matricula d = ''000005'') (differences (compareFiles exLeft exRight))) = [sin_cambios]
   \<and> filter (\<lambda>d. matricula d = ''000006'') (differences (compareFiles exLeft exRight)) = []"
  using compareFiles_classification [of exLeft "''000001''" "mkRow ''1'' ''P1'' ''C1''" exRight "mkRow ''000001'' ''Q1'' ''C1''"]
    compareFiles_classification [of exLeft "''000002''" "mkRow ''2'' ''P2'' ''C2''" exRight "mkRow ''000002'' ''P2'' ''D2''"]
    compareFiles_classification [of exLeft "''000003''" "mkRow ''3'' ''P3'' ''C3''" exRight "mkRow ''000003'' ''Q3'' ''D3''"]
    compareFiles_classification [of exLeft "''000004''" "mkRow ''4'' ''P4'' ''C4''" exRight]
    compareFiles_classification [of exLeft "''000005''" _ exRight "mkRow ''000005'' ''P5'' ''C5''"]
    compareFiles_classification [of exLeft "''000006''" "mkRow ''6'' ''P6'' ''C6''" exRight "mkRow ''000006'' ''P6'' ''C6''"]
  by (simp add: exLeft_index exRight_index mkRow_attrs)

text \<open>
  C2. The normalizer trims the raw value first. When the trimmed value is made of digits
  only and is shorter than 6, the result is the trimmed value with zeros put in front, up
  to the length 6 exactly; in every other case (a value that is not numeric, a numeric one
  of 6 digits or more) the result is the trimmed value itself, so that a longer numeric
  value is not cut. The keys of the maps of \<^verbatim>\<open>compareFiles\<close> and the identifiers of
  \<^verbatim>\<open>generateQueryScript\<close> are the normalized raw values of the rows.
\<close>

theorem normalizeMatricula_rule:
  "(testDigits (trim raw) \<and> length (trim raw) < 6 \<longrightarrow>
      normalizeMatricula raw = replicate (6 - length (trim raw)) (CHR ''0'') @ trim raw
      \<and> length (normalizeMatricula raw) = 6)
   \<and> (\<not> testDigits (trim raw) \<longrightarrow> normalizeMatricula raw = trim raw)
   \<and> (testDigits (trim raw) \<and> 6 \<le> length (trim raw) \<longrightarrow> normalizeMatricula raw = trim raw)
   \<and> set (map fst (indexByMatricula rows)) =
       {normalizeMatricula (orEmpty (rowMatricula r)) | r. r \<in> set rows \<and> truthy (rowMatricula r)}
   \<and> set (queryMatriculas rows) =
       {normalizeMatricula (orEmpty (rowQueryMatricula r)) | r.
          r \<in> set rows \<and> truthy (rowQueryMatricula r)
          \<and> normalizeMatricula (orEmpty (rowQueryMatricula r)) \<noteq> []}"
proof -
  have c1: "testDigits (trim raw) \<and> length (trim raw) < 6 \<longrightarrow>
      normalizeMatricula raw = replicate (6 - length (trim raw)) (CHR ''0'') @ trim raw
      \<and> length (normalizeMatricula raw) = 6"
    by (auto simp: normalize_padded)
  have c2: "\<not> testDigits (trim raw) \<longrightarrow> normalizeMatricula raw = trim raw"
    by (auto simp: normalize_unpadded)
  have c3: "testDigits (trim raw) \<and> 6 \<le> length (trim raw) \<longrightarrow> normalizeMatricula raw = trim raw"
    by (auto simp: normalize_unpadded)
  show ?thesis
    by (rule conjI c1 c2 c3 keys_indexByMatricula set_queryMatriculas)+
qed

theorem normalizeMatricula_rule_witness:
  "normalizeMatricula '' 517 '' = ''000517''
   \<and> normalizeMatricula '' AB12'' = ''AB12''
   \<and> normalizeMatricula ''1234567 '' = ''1234567''"
proof -
  have t1: "trim '' 517 '' = ''517''" and t2: "trim '' AB12'' = ''AB12''"
    and t3: "trim ''1234567 '' = ''1234567''"
    by (simp_all add: trim_def isWhiteSpace_def)
  have d1: "testDigits ''517''" and d2: "\<not> testDigits ''AB12''" and d3: "testDigits ''1234567''"
    by (simp_all add: testDigits_def isDigit_def)
  have a: "normalizeMatricula '' 517 '' = ''000517''"
    using normalizeMatricula_rule [where raw = "'' 517 ''", THEN conjunct1]
    by (simp add: t1 d1 eval_nat_numeral)
  have b: "normalizeMatricula '' AB12'' = ''AB12''"
    using normalizeMatricula_rule [where raw = "'' AB12''", THEN conjunct2, THEN conjunct1]
    by (simp add: t2 d2)
  have c: "normalizeMatricula ''1234567 '' = ''1234567''"
    using normalizeMatricula_rule [where raw = "''1234567 ''", THEN conjunct2, THEN conjunct2,
        THEN conjunct1]
    by (simp add: t3 d3)
  show ?thesis by (rule conjI a b c)+
qed

text \<open>
  C3, at a row whose MATRICULA is one space. The guard of the indexing loop tests the raw
  value, which is truthy; the key stored is the normalized value, the empty string. The row
  is not excluded: it yields a difference of status \<open>nuevo_registro\<close> under the empty key
  and an UPDATE statement for the empty identifier. \<^verbatim>\<open>generateQueryScript\<close>, which
  filters after the normalisation, drops the same row.
\<close>

theorem compareFiles_blank_matricula:
  "rowMatricula (hd (data exBlank)) = Some '' ''
   \<and> normalizeMatricula '' '' = []
   \<and> map fst (indexByMatricula (data exBlank)) = [[]]
   \<and> differences (compareFiles exBlank exNoRows) =
       [\<lparr>matricula = [],
         codigoPoligono = \<lparr>archivo1 = ''P1'', archivo2 = [], necesitaActualizar = True\<rparr>,
         codigoCelda = \<lparr>archivo1 = [], archivo2 = [], necesitaActualizar = True\<rparr>,
         status = nuevo_registro\<rparr>]
   \<and> nonMatching (compareFiles exBlank exNoRows) = 1
   \<and> updateStatementList (differences (compareFiles exBlank exNoRows)) =
       [''UPDATE EDESURFLX_SGD.UTRANSFORMADORA_LT SET cod_poligono = P1 WHERE instalacao = '' @ sq @ sq @ '';'']
   \<and> queryMatriculas (data exBlank) = []"
proof -
  let ?r = "[''MATRICULA'' \<mapsto> '''', ''CODIGO POLIGONO'' \<mapsto> ''P1'', ''ID'' \<mapsto> '''',
      ''Matricula'' \<mapsto> '' '']"
  have rm: "rowMatricula ?r = Some '' ''"
    by (simp add: rowMatricula_def jsOr_def truthy_def)
  have n: "normalizeMatricula '' '' = []"
    by (simp add: normalizeMatricula_def trim_def isWhiteSpace_def testDigits_def)
  have i: "indexByMatricula (data exBlank) = [([], ?r)]"
    unfolding exBlank_def mkFile_def
    by (simp add: indexByMatricula_def indexRow_def rm n truthy_def orEmpty_def)
  have a: "rowPoligono ?r = ''P1''" "rowCelda ?r = []"
    by (simp_all add: rowPoligono_def rowCelda_def jsOr_def truthy_def orEmpty_def)
  have d: "differences (compareFiles exBlank exNoRows) =
       [\<lparr>matricula = [],
         codigoPoligono = \<lparr>archivo1 = ''P1'', archivo2 = [], necesitaActualizar = True\<rparr>,
         codigoCelda = \<lparr>archivo1 = [], archivo2 = [], necesitaActualizar = True\<rparr>,
         status = nuevo_registro\<rparr>]"
    unfolding differences_compareFiles i exNoRows_index
    by (simp add: leftEntries_absent a)
  have u: "updateStatementList (differences (compareFiles exBlank exNoRows)) =
       [''UPDATE EDESURFLX_SGD.UTRANSFORMADORA_LT SET cod_poligono = P1 WHERE instalacao = '' @ sq @ sq @ '';'']"
    unfolding d
    by (simp add: updateStatementList_def updateStatement_def setClauses_def isUpdateStatus_def
        testFiveDigits_def orEmpty_def Let_def)
  have q: "queryMatriculas (data exBlank) = []"
    unfolding exBlank_def mkFile_def
    by (simp add: queryMatriculas_def queryMatricula_def rowQueryMatricula_def jsOr_def truthy_def
        orEmpty_def n Let_def)
  have h: "rowMatricula (hd (data exBlank)) = Some '' ''"
    unfolding exBlank_def mkFile_def using rm by simp
  show ?thesis using h n i d u q by (simp add: nonMatching_compareFiles)
qed

text \<open>
  C4, as the code has it. A difference of a key of both maps has, for each attribute, the
  flag \<open>necesitaActualizar\<close> true exactly when the value of file 1 and the value of file 2
  differ. A difference of status \<open>nuevo_registro\<close> (a key of the left map only) has both
  flags true and both values of file 2 empty, whatever the values of file 1 are. A difference
  of status \<open>sin_cambios\<close> (a key of the right map only) has both flags false and both
  values of file 1 empty.
\<close>

theorem necesitaActualizar_flags:
  assumes "d \<in> set (differences (compareFiles f1 f2))"
  shows "(status d = nuevo_registro \<longrightarrow>
            necesitaActualizar (codigoPoligono d) \<and> necesitaActualizar (codigoCelda d)
            \<and> archivo2 (codigoPoligono d) = [] \<and> archivo2 (codigoCelda d) = []
            \<and> map_of (indexByMatricula (data f2)) (matricula d) = None)
       \<and> (status d = sin_cambios \<longrightarrow>
            \<not> necesitaActualizar (codigoPoligono d) \<and> \<not> necesitaActualizar (codigoCelda d)
            \<and> archivo1 (codigoPoligono d) = [] \<and> archivo1 (codigoCelda d) = []
            \<and> map_of (indexByMatricula (data f1)) (matricula d) = None)
       \<and> (status d \<noteq> nuevo_registro \<and> status d \<noteq> sin_cambios \<longrightarrow>
            necesitaActualizar (codigoPoligono d)
              = (archivo1 (codigoPoligono d) \<noteq> archivo2 (codigoPoligono d))
            \<and> necesitaActualizar (codigoCelda d)
              = (archivo1 (codigoCelda d) \<noteq> archivo2 (codigoCelda d))
            \<and> map_of (indexByMatricula (data f1)) (matricula d) \<noteq> None
            \<and> map_of (indexByMatricula (data f2)) (matricula d) \<noteq> None)"
  using assms
proof (cases rule: differences_origin)
  case (left k row1)
  show ?thesis
  proof (cases "map_of (indexByMatricula (data f2)) k")
    case None
    with left(3) show ?thesis using left(1,2) by (auto simp: leftEntries_absent)
  next
    case (Some row2)
    with left(3) show ?thesis using left(1,2)
      by (auto simp: leftEntries_present split: if_splits)
  qed
next
  case (right k row2)
  then show ?thesis by (auto simp: rightEntries_eq split: if_splits)
qed

theorem necesitaActualizar_flags_witness:
  "\<lparr>matricula = ''000002'',
     codigoPoligono = \<lparr>archivo1 = ''P2'', archivo2 = ''P2'', necesitaActualizar = False\<rparr>,
     codigoCelda = \<lparr>archivo1 = ''C2'', archivo2 = ''D2'', necesitaActualizar = True\<rparr>,
     status = actualizar_celda\<rparr> \<in> set (differences (compareFiles exLeft exRight))
   \<and> map_of (indexByMatricula (data exLeft)) ''000002'' \<noteq> None
   \<and> map_of (indexByMatricula (data exRight)) ''000002'' \<noteq> None
   \<and> \<lparr>matricula = ''000004'',
       codigoPoligono = \<lparr>archivo1 = ''P4'', archivo2 = [], necesitaActualizar = True\<rparr>,
       codigoCelda = \<lparr>archivo1 = ''C4'', archivo2 = [], necesitaActualizar = True\<rparr>,
       status = nuevo_registro\<rparr> \<in> set (differences (compareFiles exLeft exRight))
   \<and> map_of (indexByMatricula (data exRight)) ''000004'' = None
   \<and> \<lparr>matricula = ''000005'',
       codigoPoligono = \<lparr>archivo1 = [], archivo2 = ''P5'', necesitaActualizar = False\<rparr>,
       codigoCelda = \<lparr>archivo1 = [], archivo2 = ''C5'', necesitaActualizar = False\<rparr>,
       status = sin_cambios\<rparr> \<in> set (differences (compareFiles exLeft exRight))
   \<and> map_of (indexByMatricula (data exLeft)) ''000005'' = None"
proof -
  let ?d2 = "\<lparr>matricula = ''000002'',
     codigoPoligono = \<lparr>archivo1 = ''P2'', archivo2 = ''P2'', necesitaActualizar = False\<rparr>,
     codigoCelda = \<lparr>archivo1 = ''C2'', archivo2 = ''D2'', necesitaActualizar = True\<rparr>,
     status = actualizar_celda\<rparr>"
  let ?d4 = "\<lparr>matricula = ''000004'',
       codigoPoligono = \<lparr>archivo1 = ''P4'', archivo2 = [], necesitaActualizar = True\<rparr>,
       codigoCelda = \<lparr>archivo1 = ''C4'', archivo2 = [], necesitaActualizar = True\<rparr>,
       status = nuevo_registro\<rparr>"
  let ?d5 = "\<lparr>matricula = ''000005'',
       codigoPoligono = \<lparr>archivo1 = [], archivo2 = ''P5'', necesitaActualizar = False\<rparr>,
       codigoCelda = \<lparr>archivo1 = [], archivo2 = ''C5'', necesitaActualizar = False\<rparr>,
       status = sin_cambios\<rparr>"
  have m2: "?d2 \<in> set (differences (compareFiles exLeft exRight))"
    and m4: "?d4 \<in> set (differences (compareFiles exLeft exRight))"
    and m5: "?d5 \<in> set (differences (compareFiles exLeft exRight))"
    by (simp_all add: exDifferences)
  show ?thesis
    using m2 m4 m5 necesitaActualizar_flags [OF m2] necesitaActualizar_flags [OF m4]
      necesitaActualizar_flags [OF m5]
    by simp
qed

text \<open>
  The claim C4 as it is stated fails: file 1 has the one row 100000 with CODIGO POLIGONO P1 and
  an empty CODIGO CELDA, file 2 has no row. The difference is new, its CODIGO CELDA is empty on
  both sides, and the flag is true.
\<close>

theorem necesitaActualizar_new_counterexample:
  "differences (compareFiles exNewEmptyCelda exNoRows) =
     [\<lparr>matricula = ''100000'',
       codigoPoligono = \<lparr>archivo1 = ''P1'', archivo2 = [], necesitaActualizar = True\<rparr>,
       codigoCelda = \<lparr>archivo1 = [], archivo2 = [], necesitaActualizar = True\<rparr>,
       status = nuevo_registro\<rparr>]
   \<and> necesitaActualizar (codigoCelda (hd (differences (compareFiles exNewEmptyCelda exNoRows))))
   \<and> archivo1 (codigoCelda (hd (differences (compareFiles exNewEmptyCelda exNoRows))))
       = archivo2 (codigoCelda (hd (differences (compareFiles exNewEmptyCelda exNoRows))))
   \<and> archivo1 (codigoCelda (hd (differences (compareFiles exNewEmptyCelda exNoRows)))) = []"
proof -
  have i: "indexByMatricula (data exNewEmptyCelda) = [(''100000'', mkRow ''100000'' ''P1'' '''')]"
    unfolding exNewEmptyCelda_def by (simp add: eval_defs)
  have "differences (compareFiles exNewEmptyCelda exNoRows) =
     [\<lparr>matricula = ''100000'',
       codigoPoligono = \<lparr>archivo1 = ''P1'', archivo2 = [], necesitaActualizar = True\<rparr>,
       codigoCelda = \<lparr>archivo1 = [], archivo2 = [], necesitaActualizar = True\<rparr>,
       status = nuevo_registro\<rparr>]"
    unfolding differences_compareFiles i exNoRows_index
    by (simp add: leftEntries_absent mkRow_attrs)
  then show ?thesis by simp
qed

text \<open>
  C5. The script of \<^verbatim>\<open>generateValidationScript\<close> is the concatenation of its pieces, and
  the pieces are these. For a list of at most 1000 identifiers (1000 included): the header,
  one validation query whose IN list holds every identifier, and the summary query; read
  back, the script has that one IN list, and it has no UNION ALL. For a longer list: the
  header, the warning, then for each chunk of 1000 consecutive identifiers (chunk \<open>i\<close> is
  the identifiers from \<open>i * 1000\<close> on, at most 1000 of them) one query whose IN list holds
  the identifiers of that chunk, followed by UNION ALL except after the last chunk, then the
  summary and the temporary table: its CREATE, one INSERT for each identifier of the whole
  list, the LEFT JOIN query and the DROP. The chunks together are the list, every chunk but
  possibly the last has 1000 elements and the last has the remainder; read back, the script
  has one IN list for each chunk, in order, and one UNION ALL between two chunks. A list of
  1001 identifiers gives two chunks, of 1000 and of 1. The circuit named in the queries is
  that of the first identifier, and \<^verbatim>\<open>CIRCUITO\<close> when there is none or it is empty;
  the counts are written in decimal notation.
\<close>

theorem generateValidationScript_chunking:
  assumes "al = allInstalacionesOf fileList" and "pieces = validationPieces now fileList"
  shows
   "validationScript (generateValidationScript now fileList st) = concat pieces
    \<and> firstCircuito [] = ''CIRCUITO''
    \<and> firstCircuito (item0 # rest0) = (if snd item0 = [] then ''CIRCUITO'' else snd item0)
    \<and> showNat k =
        (if k < 10 then [''0123456789'' ! k] else showNat (k div 10) @ [''0123456789'' ! (k mod 10)])
    \<and> (length al \<le> 1000 \<longrightarrow>
          pieces =
            [''-- ==========================================='' @ nl,
             ''-- SCRIPT DE VALIDACI'' @ [CHR 0xD3] @ ''N GENERADO POR FILECOMPRESS'' @ nl,
             ''-- Fecha: '' @ now @ nl,
             ''-- Total archivos procesados: '' @ showNat (length fileList) @ nl,
             ''-- Total instalaciones a validar: '' @ showNat (length al) @ nl,
             ''-- ==========================================='' @ nl @ nl]
            @ [''-- VALIDACI'' @ [CHR 0xD3] @ ''N DE EXISTENCIA EN UTRANSFORMADORA_LT'' @ nl,
               ''SELECT '' @ nl,
               ''    '' @ sq @ ''VALIDACION'' @ sq @ '' as tipo,'' @ nl,
               ''    instalacao,'' @ nl,
               ''    '' @ sq @ firstCircuito al @ sq @ '' as circuito_origen,'' @ nl,
               ''    CASE '' @ nl,
               ''        WHEN COUNT('' @ ''*) > 0 THEN '' @ sq @ ''EXISTE'' @ sq @ nl,
               ''        ELSE '' @ sq @ ''NO_EXISTE'' @ sq @ nl,
               ''    END as estado,'' @ nl,
               ''    COUNT('' @ ''*) as registros_encontrados'' @ nl,
               ''FROM EDESURFLX_SGD.UTRANSFORMADORA_LT '' @ nl,
               ''WHERE instalacao IN ('' @ nl]
            @ inListLines al
            @ ['')'' @ nl,
               ''GROUP BY instalacao'' @ nl,
               ''ORDER BY instalacao;'' @ nl @ nl,
               ''-- RESUMEN POR CIRCUITO'' @ nl,
               ''SELECT '' @ nl,
               ''    circuito_origen,'' @ nl,
               ''    COUNT('' @ ''*) as total_instalaciones,'' @ nl,
               ''    SUM(CASE WHEN estado = '' @ sq @ ''EXISTE'' @ sq @ '' THEN 1 ELSE 0 END) as existentes,'' @ nl,
               ''    SUM(CASE WHEN estado = '' @ sq @ ''NO_EXISTE'' @ sq @ '' THEN 1 ELSE 0 END) as no_existentes'' @ nl,
               ''FROM ('' @ nl,
               ''    SELECT '' @ nl,
               ''        '' @ sq @ firstCircuito al @ sq @ '' as circuito_origen,'' @ nl,
               ''        instalacao,'' @ nl,
               ''        CASE '' @ nl,
               ''            WHEN COUNT('' @ ''*) > 0 THEN '' @ sq @ ''EXISTE'' @ sq @ nl,
               ''            ELSE '' @ sq @ ''NO_EXISTE'' @ sq @ nl,
               ''        END as estado'' @ nl,
               ''    FROM EDESURFLX_SGD.UTRANSFORMADORA_LT '' @ nl,
               ''    WHERE instalacao IN ('' @ nl]
            @ subListLines al
            @ [''    )'' @ nl,
               ''    GROUP BY instalacao'' @ nl,
               '') subquery'' @ nl,
               ''GROUP BY circuito_origen;'' @ nl]
          \<and> inLists pieces = [inListLines al]
          \<and> count_list pieces (''UNION ALL'' @ nl @ nl) = 0)
    \<and> (1000 < length al \<longrightarrow>
          pieces =
            ([''-- ==========================================='' @ nl,
              ''-- SCRIPT DE VALIDACI'' @ [CHR 0xD3] @ ''N GENERADO POR FILECOMPRESS'' @ nl,
              ''-- Fecha: '' @ now @ nl,
              ''-- Total archivos procesados: '' @ showNat (length fileList) @ nl,
              ''-- Total instalaciones a validar: '' @ showNat (length al) @ nl,
              ''-- ==========================================='' @ nl @ nl]
             @ [''-- '' @ [CHR 0xE2, CHR 0x9A, CHR 0xA0] @ [CHR 0xEF, CHR 0xB8, CHR 0x8F] @ ''  ADVERTENCIA: Se supera el l'' @ [CHR 0xED] @ ''mite de 1000 expresiones en Oracle IN'' @ nl,
                ''-- Se generar'' @ [CHR 0xE1] @ '' script con divisi'' @ [CHR 0xF3] @ ''n autom'' @ [CHR 0xE1] @ ''tica en chunks'' @ nl @ nl]
             @ [''-- SOLUCI'' @ [CHR 0xD3] @ ''N 1: DIVISI'' @ [CHR 0xD3] @ ''N EN CHUNKS (Recomendado para Oracle)'' @ nl,
                ''-- Se dividieron '' @ showNat (length al) @ '' instalaciones en '' @ showNat ((length al + 999) div 1000) @ '' chunks de m'' @ [CHR 0xE1] @ ''ximo '' @ showNat 1000 @ nl @ nl])
            @ concat (map (\<lambda>i.
                [''-- CHUNK '' @ showNat (i + 1) @ '' ('' @ showNat (i * 1000 + 1) @ ''-'' @ showNat (min ((i + 1) * 1000) (length al)) @ '')'' @ nl,
                 ''SELECT '' @ nl,
                 ''    '' @ sq @ ''VALIDACION'' @ sq @ '' as tipo,'' @ nl,
                 ''    instalacao,'' @ nl,
                 ''    '' @ sq @ firstCircuito (take 1000 (drop (i * 1000) al)) @ sq @ '' as circuito_origen,'' @ nl,
                 ''    CASE '' @ nl,
                 ''        WHEN COUNT('' @ ''*) > 0 THEN '' @ sq @ ''EXISTE'' @ sq @ nl,
                 ''        ELSE '' @ sq @ ''NO_EXISTE'' @ sq @ nl,
                 ''    END as estado,'' @ nl,
                 ''    COUNT('' @ ''*) as registros_encontrados'' @ nl,
                 ''FROM EDESURFLX_SGD.UTRANSFORMADORA_LT '' @ nl,
                 ''WHERE instalacao IN ('' @ nl]
                @ inListLines (take 1000 (drop (i * 1000) al))
                @ ['')'' @ nl,
                   ''GROUP BY instalacao'' @ nl,
                   ''ORDER BY instalacao'' @ nl]
                @ [if i < (length al + 999) div 1000 - 1 then ''UNION ALL'' @ nl @ nl else '';'' @ nl @ nl])
              [0..<(length al + 999) div 1000])
            @ ([''-- RESUMEN POR CIRCUITO (Combinando todos los chunks)'' @ nl,
              ''SELECT '' @ nl,
              ''    circuito_origen,'' @ nl,
              ''    COUNT('' @ ''*) as total_instalaciones,'' @ nl,
              ''    SUM(CASE WHEN estado = '' @ sq @ ''EXISTE'' @ sq @ '' THEN 1 ELSE 0 END) as existentes,'' @ nl,
              ''    SUM(CASE WHEN estado = '' @ sq @ ''NO_EXISTE'' @ sq @ '' THEN 1 ELSE 0 END) as no_existentes'' @ nl,
              ''FROM ('' @ nl,
              ''    -- Aqu'' @ [CHR 0xED] @ '' debes ejecutar todos los chunks anteriores y combinar resultados'' @ nl,
              ''    -- O usar la siguiente alternativa con tabla temporal'' @ nl,
              '') subquery'' @ nl,
              ''GROUP BY circuito_origen;'' @ nl @ nl]
               @ [''-- SOLUCI'' @ [CHR 0xD3] @ ''N 2: TABLA TEMPORAL (Alternativa m'' @ [CHR 0xE1] @ ''s eficiente)'' @ nl,
                  ''-- Crear tabla temporal'' @ nl,
                  ''CREATE GLOBAL TEMPORARY TABLE TEMP_INSTALACIONES ('' @ nl,
                  ''    instalacao VARCHAR2(20),'' @ nl,
                  ''    circuito VARCHAR2(50)'' @ nl,
                  '') ON COMMIT PRESERVE ROWS;'' @ nl @ nl,
                  ''-- Insertar todas las instalaciones'' @ nl]
               @ map (\<lambda>item. ''INSERT INTO TEMP_INSTALACIONES VALUES ('' @ sq @ fst item @ sq @ '', '' @ sq @ snd item @ sq @ '');'' @ nl) al
               @ [nl @ ''-- Consulta usando JOIN (sin l'' @ [CHR 0xED] @ ''mite de 1000)'' @ nl,
                  ''SELECT '' @ nl,
                  ''    t.instalacao,'' @ nl,
                  ''    t.circuito as circuito_origen,'' @ nl,
                  ''    CASE '' @ nl,
                  ''        WHEN COUNT(u.instalacao) > 0 THEN '' @ sq @ ''EXISTE'' @ sq @ nl,
                  ''        ELSE '' @ sq @ ''NO_EXISTE'' @ sq @ nl,
                  ''    END as estado,'' @ nl,
                  ''    COUNT(u.instalacao) as registros_encontrados'' @ nl,
                  ''FROM TEMP_INSTALACIONES t'' @ nl,
                  ''LEFT JOIN EDESURFLX_SGD.UTRANSFORMADORA_LT u ON t.instalacao = u.instalacao'' @ nl,
                  ''GROUP BY t.instalacao, t.circuito'' @ nl,
                  ''ORDER BY t.circuito, t.instalacao;'' @ nl @ nl]
               @ [''-- Limpiar tabla temporal'' @ nl,
                  ''DROP TABLE TEMP_INSTALACIONES;'' @ nl])
          \<and> concat (map (\<lambda>i. take 1000 (drop (i * 1000) al)) [0..<(length al + 999) div 1000]) = al
          \<and> map (\<lambda>i. length (take 1000 (drop (i * 1000) al))) [0..<(length al + 999) div 1000] =
              replicate (length al div 1000) 1000
              @ (if length al mod 1000 = 0 then [] else [length al mod 1000])
          \<and> inLists pieces = map (\<lambda>i. inListLines (take 1000 (drop (i * 1000) al))) [0..<(length al + 999) div 1000]
          \<and> count_list pieces (''UNION ALL'' @ nl @ nl) = (length al + 999) div 1000 - 1)
    \<and> (length al = 1001 \<longrightarrow>
          map (\<lambda>i. length (take 1000 (drop (i * 1000) al))) [0..<(length al + 999) div 1000] = [1000, 1])"
    (is "?c0 \<and> ?c1 \<and> ?c2 \<and> ?cs \<and> (_ \<longrightarrow> pieces = ?NORMAL \<and> _) \<and>
         (_ \<longrightarrow> pieces = ?PRE @ concat (map ?blk ?idx) @ ?POST \<and> _) \<and> _")
proof -
  let ?m = "(length al + 999) div 1000"
  let ?chunk = "\<lambda>i. take 1000 (drop (i * 1000) al)"
  have chunks: "chunkLoop 0 al = map ?chunk [0..<?m]"
    by (rule chunkLoop_0_index)
  have c0: "validationScript (generateValidationScript now fileList st) = concat pieces"
    by (simp add: generateValidationScript_def assms)
  have c1: "firstCircuito [] = ''CIRCUITO''"
    by (simp add: firstCircuito_def)
  have cs: ?cs
    unfolding digitChar_def [symmetric] by (rule showNat.simps)
  have c2: "firstCircuito (item0 # rest0) = (if snd item0 = [] then ''CIRCUITO'' else snd item0)"
    by (simp add: firstCircuito_def strOr_def)
  have cat: "concat (map ?chunk [0..<?m]) = al"
    using chunkLoop_concat [of 0 al] unfolding chunks by simp
  have lens: "map (\<lambda>i. length (?chunk i)) [0..<?m] =
      replicate (length al div 1000) 1000
      @ (if length al mod 1000 = 0 then [] else [length al mod 1000])"
  proof -
    have "map (\<lambda>i. length (?chunk i)) [0..<?m] = map length (chunkLoop 0 al)"
      unfolding chunks by (simp only: map_map comp_def)
    then show ?thesis
      using chunkLoop_lengths [of 0 al] by (simp add: CHUNK_SIZE_def)
  qed
  have normal: "pieces = ?NORMAL" if "length al \<le> 1000"
  proof -
    have le: "\<not> 1000 < length (allInstalacionesOf fileList)" using that assms by simp
    show ?thesis
      unfolding assms validationPieces_def Let_def if_not_P [OF le] normalValidationPieces_def
        item_lines sub_lines
      by simp
  qed
  have chunked: "pieces = ?PRE @ concat (map ?blk ?idx) @ ?POST" if "1000 < length al"
  proof -
    have "validationPieces now fileList = ?PRE @ concat (map ?blk ?idx) @ ?POST"
      unfolding validationPieces_def Let_def if_P [OF that] chunkedValidationPieces_def
        assms(1) [symmetric] chunks enumerate_map_upt map_map comp_def chunkPieces_def
        prod.case item_lines unionPiece_def CHUNK_SIZE_def length_map length_upt
      by (simp add: tempTablePieces_def tempCreatePieces_def
          tempQueryPieces_def tempDropPieces_def insertPiece_def [abs_def])
    then show ?thesis by (simp only: assms(2))
  qed
  note notin = inListLines_not_special [simplified] subListLines_not_open [simplified]
  have norm_lists: "inLists ?NORMAL = [inListLines al]"
    by (simp add: inLists_def inListsFrom_step inListsFrom_skip notin)
  define blk where "blk = ?blk"
  have pre: "inListsFrom None (?PRE @ xs) = inListsFrom None xs" for xs
    by simp
  have b: "inListsFrom None (blk i @ ys) = inListLines (?chunk i) # inListsFrom None ys" for i ys
    unfolding blk_def by (simp add: inListsFrom_step notin)
  have bs: "inListsFrom None (concat (map blk is) @ ys)
              = map (\<lambda>i. inListLines (?chunk i)) is @ inListsFrom None ys" for "is" ys
    by (induction "is") (simp_all add: b)
  have post: "inListsFrom None ?POST = []"
    by (simp add: inListsFrom_map_skip)
  have chunk_lists: "inLists (?PRE @ concat (map ?blk ?idx) @ ?POST)
      = map (\<lambda>i. inListLines (?chunk i)) [0..<?m]"
    unfolding inLists_def pre blk_def [symmetric] bs post by simp
  have union0: "count_list pieces (''UNION ALL'' @ nl @ nl) = 0" if "length al \<le> 1000"
    using validationPieces_normal(2) [of fileList now] that
    unfolding assms unionPiece_def by simp
  have union1: "count_list pieces (''UNION ALL'' @ nl @ nl) = ?m - 1" if "1000 < length al"
  proof -
    have "length (chunkLoop 0 al) = ?m" unfolding chunks by simp
    then show ?thesis
      using validationPieces_chunked(2) [of fileList now] that
      unfolding assms unionPiece_def by simp
  qed
  have c3: "length al \<le> 1000 \<longrightarrow>
      pieces = ?NORMAL \<and> inLists pieces = [inListLines al]
      \<and> count_list pieces (''UNION ALL'' @ nl @ nl) = 0"
    using normal norm_lists union0 by simp
  have c4: "1000 < length al \<longrightarrow>
      pieces = ?PRE @ concat (map ?blk ?idx) @ ?POST
      \<and> concat (map ?chunk [0..<?m]) = al
      \<and> map (\<lambda>i. length (?chunk i)) [0..<?m] =
          replicate (length al div 1000) 1000
          @ (if length al mod 1000 = 0 then [] else [length al mod 1000])
      \<and> inLists pieces = map (\<lambda>i. inListLines (?chunk i)) [0..<?m]
      \<and> count_list pieces (''UNION ALL'' @ nl @ nl) = ?m - 1"
    using chunked cat lens chunk_lists union1 by (simp only:) blast
  have c5: "length al = 1001 \<longrightarrow> map (\<lambda>i. length (?chunk i)) [0..<?m] = [1000, 1]"
    unfolding lens by simp
  show ?thesis
    by (rule conjI c0 c1 c2 cs c3 c4 c5)+
qed

theorem generateValidationScript_chunking_witness:
  "validationPieces exNow [exSqlFile 2] =
     [''-- ==========================================='' @ nl,
      ''-- SCRIPT DE VALIDACI'' @ [CHR 0xD3] @ ''N GENERADO POR FILECOMPRESS'' @ nl,
      ''-- Fecha: 3/11/2026, 10:00:00'' @ nl,
      ''-- Total archivos procesados: 1'' @ nl,
      ''-- Total instalaciones a validar: 2'' @ nl,
      ''-- ==========================================='' @ nl @ nl,
      ''-- VALIDACI'' @ [CHR 0xD3] @ ''N DE EXISTENCIA EN UTRANSFORMADORA_LT'' @ nl,
      ''SELECT '' @ nl,
      ''    '' @ sq @ ''VALIDACION'' @ sq @ '' as tipo,'' @ nl,
      ''    instalacao,'' @ nl,
      ''    '' @ sq @ ''LPRA110'' @ sq @ '' as circuito_origen,'' @ nl,
      ''    CASE '' @ nl,
      ''        WHEN COUNT('' @ ''*) > 0 THEN '' @ sq @ ''EXISTE'' @ sq @ nl,
      ''        ELSE '' @ sq @ ''NO_EXISTE'' @ sq @ nl,
      ''    END as estado,'' @ nl,
      ''    COUNT('' @ ''*) as registros_encontrados'' @ nl,
      ''FROM EDESURFLX_SGD.UTRANSFORMADORA_LT '' @ nl,
      ''WHERE instalacao IN ('' @ nl,
      ''    '' @ sq @ ''000517'' @ sq @ '',  -- LPRA110'' @ nl,
      ''    '' @ sq @ ''000517'' @ sq @ ''  -- LPRA110'' @ nl,
      '')'' @ nl,
      ''GROUP BY instalacao'' @ nl,
      ''ORDER BY instalacao;'' @ nl @ nl,
      ''-- RESUMEN POR CIRCUITO'' @ nl,
      ''SELECT '' @ nl,
      ''    circuito_origen,'' @ nl,
      ''    COUNT('' @ ''*) as total_instalaciones,'' @ nl,
      ''    SUM(CASE WHEN estado = '' @ sq @ ''EXISTE'' @ sq @ '' THEN 1 ELSE 0 END) as existentes,'' @ nl,
      ''    SUM(CASE WHEN estado = '' @ sq @ ''NO_EXISTE'' @ sq @ '' THEN 1 ELSE 0 END) as no_existentes'' @ nl,
      ''FROM ('' @ nl,
      ''    SELECT '' @ nl,
      ''        '' @ sq @ ''LPRA110'' @ sq @ '' as circuito_origen,'' @ nl,
      ''        instalacao,'' @ nl,
      ''        CASE '' @ nl,
      ''            WHEN COUNT('' @ ''*) > 0 THEN '' @ sq @ ''EXISTE'' @ sq @ nl,
      ''            ELSE '' @ sq @ ''NO_EXISTE'' @ sq @ nl,
      ''        END as estado'' @ nl,
      ''    FROM EDESURFLX_SGD.UTRANSFORMADORA_LT '' @ nl,
      ''    WHERE instalacao IN ('' @ nl,
      ''        '' @ sq @ ''000517'' @ sq @ '','' @ nl,
      ''        '' @ sq @ ''000517'' @ sq @ nl,
      ''    )'' @ nl,
      ''    GROUP BY instalacao'' @ nl,
      '') subquery'' @ nl,
      ''GROUP BY circuito_origen;'' @ nl]
   \<and> inLists (validationPieces exNow [exSqlFile 1000]) = [inListLines (replicate 1000 (''000517'', ''LPRA110''))]
   \<and> count_list (validationPieces exNow [exSqlFile 1000]) (''UNION ALL'' @ nl @ nl) = 0
   \<and> map (\<lambda>i. length (take 1000 (drop (i * 1000) (allInstalacionesOf [exSqlFile 1001])))) [0..<2]
       = [1000, 1]
   \<and> inLists (validationPieces exNow [exSqlFile 1001])
       = [inListLines (replicate 1000 (''000517'', ''LPRA110'')), inListLines [(''000517'', ''LPRA110'')]]
   \<and> count_list (validationPieces exNow [exSqlFile 1001]) (''UNION ALL'' @ nl @ nl) = 1
   \<and> validationPieces exNow [exSqlFile 1001] ! 9
       = ''-- Se dividieron 1001 instalaciones en 2 chunks de m'' @ [CHR 0xE1] @ ''ximo 1000'' @ nl @ nl
   \<and> validationPieces exNow [exSqlFile 1001] ! 10 = ''-- CHUNK 1 (1-1000)'' @ nl
   \<and> last (validationPieces exNow [exSqlFile 1001]) = ''DROP TABLE TEMP_INSTALACIONES;'' @ nl"
  (is "?w1 \<and> ?w2 \<and> ?w3 \<and> ?w4 \<and> ?w5 \<and> ?w6 \<and> ?w7 \<and> ?w8 \<and> ?w9")
proof -
  note rest = conjunct2 [THEN conjunct2, THEN conjunct2]
  note branches = conjunct2 [THEN conjunct2, THEN conjunct2, THEN conjunct2]
  note s = generateValidationScript_chunking
    [OF refl refl, where fileList = "[exSqlFile 2]" and now = exNow and st = exFcState
       and ?item0.0 = "(''000517'', ''LPRA110'')" and ?rest0.0 = "[]" and k = 1001]
  note a = generateValidationScript_chunking
    [OF refl refl, where fileList = "[exSqlFile 1000]" and now = exNow and st = exFcState
       and ?item0.0 = "(''000517'', ''LPRA110'')" and ?rest0.0 = "[]" and k = 1001]
  note b = generateValidationScript_chunking
    [OF refl refl, where fileList = "[exSqlFile 1001]" and now = exNow and st = exFcState
       and ?item0.0 = "(''000517'', ''LPRA110'')" and ?rest0.0 = "[]" and k = 1001]
  have n2: "length (allInstalacionesOf [exSqlFile 2]) \<le> 1000"
    and n1000: "length (allInstalacionesOf [exSqlFile 1000]) \<le> 1000"
    and n1001: "1000 < length (allInstalacionesOf [exSqlFile 1001])"
    and e1001: "length (allInstalacionesOf [exSqlFile 1001]) = 1001"
    by (simp_all add: exSqlFile_length)
  have two: "replicate 2 x = [x, x]" for x :: "string \<times> string"
    by (simp add: eval_nat_numeral)
  have m: "(length (allInstalacionesOf [exSqlFile 1001]) + 999) div 1000 = 2"
    by (simp add: exSqlFile_length)
  have idx: "[0..<2] = [0, Suc 0]"
    by (simp add: eval_nat_numeral)
  note sN = s [THEN branches, THEN conjunct1, THEN mp, OF n2]
  note aN = a [THEN branches, THEN conjunct1, THEN mp, OF n1000]
  note bC = b [THEN branches, THEN conjunct2, THEN conjunct1, THEN mp, OF n1001]
  note bL = b [THEN branches, THEN conjunct2, THEN conjunct2, THEN mp, OF e1001]
  have sS: "showNat (Suc 0) = ''1''" "showNat (Suc (Suc 0)) = ''2''"
    using showNat_examples(1,2) by (simp_all add: numeral_2_eq_2)
  have w1: ?w1
    unfolding sN [THEN conjunct1]
    by (simp add: exSqlFile_all two firstCircuito_example sS exNow_def)
  have w2: ?w2
    using aN [THEN conjunct2, THEN conjunct1] by (simp only: exSqlFile_all)
  have w3: ?w3
    by (rule aN [THEN conjunct2, THEN conjunct2])
  have w4: ?w4
    using bL unfolding m .
  have w5: ?w5
    unfolding bC [THEN rest, THEN conjunct1] m idx by (simp add: exSqlFile_all)
  have w6: ?w6
    unfolding bC [THEN rest, THEN conjunct2] m by simp
  have w7: ?w7
    unfolding bC [THEN conjunct1] m idx by (simp add: exSqlFile_all showNat_examples)
  have w8: ?w8
    unfolding bC [THEN conjunct1] m idx by (simp add: exSqlFile_all showNat_examples sS)
  have w9: ?w9
    unfolding bC [THEN conjunct1] by simp
  show ?thesis by (rule conjI w1 w2 w3 w4 w5 w6 w7 w8 w9)+
qed



text \<open>
  C7, on a file loaded from the sheet LPRA110 of a workbook that also has the sheet Hoja1.
  Choosing Hoja1, with the button or with the selector, gives the same file with the name of
  the sheet replaced: the rows and their count are those read from LPRA110, and the
  comparison is unchanged.
\<close>

theorem reprocessFileWithSheet_relabels:
  "hojasDisponibles exLeft = [''Hoja1'', ''LPRA110''] \<and> hojaProcesada exLeft = ''LPRA110''
   \<and> file1 (reprocessFileWithSheet 1 ''Hoja1'' exState) = Some (exLeft\<lparr>hojaProcesada := ''Hoja1''\<rparr>)
   \<and> map_option data (file1 (reprocessFileWithSheet 1 ''Hoja1'' exState)) = Some (data exLeft)
   \<and> map_option records (file1 (reprocessFileWithSheet 1 ''Hoja1'' exState)) = Some (records exLeft)
   \<and> file1 (onSheetValueChange 1 exLeft ''Hoja1'' exState) = Some (exLeft\<lparr>hojaProcesada := ''Hoja1''\<rparr>)
   \<and> compareFiles (exLeft\<lparr>hojaProcesada := ''Hoja1''\<rparr>) exRight = compareFiles exLeft exRight"
proof -
  have a: "hojasDisponibles exLeft = [''Hoja1'', ''LPRA110'']" "hojaProcesada exLeft = ''LPRA110''"
    by (simp_all add: exLeft_def mkFile_def)
  have f: "file1 exState = Some exLeft" by (simp add: exState_def)
  have r: "file1 (reprocessFileWithSheet 1 ''Hoja1'' exState) = Some (exLeft\<lparr>hojaProcesada := ''Hoja1''\<rparr>)"
    unfolding reprocessFileWithSheet_file1 f by simp
  have o: "file1 (onSheetValueChange 1 exLeft ''Hoja1'' exState) = Some (exLeft\<lparr>hojaProcesada := ''Hoja1''\<rparr>)"
    by (simp add: onSheetValueChange_def setFile_def)
  have c: "compareFiles (exLeft\<lparr>hojaProcesada := ''Hoja1''\<rparr>) exRight = compareFiles exLeft exRight"
    by (simp add: compareFiles_def)
  show ?thesis using a r o c by simp
qed

text \<open>
  C8, as the code has it. \<^verbatim>\<open>generateQueryScript\<close> with no file 1, or with a file 1
  whose rows give no identifier, shows a destructive toast and changes nothing else: the
  query script and its flag stay as they were. With one identifier at least it stores the
  script. \<^verbatim>\<open>generateValidationScript\<close> stores a script, never empty, for every list of
  files, and shows no toast.
\<close>

theorem generateQueryScript_empty:
  "(file1 st = None \<longrightarrow>
      queryScript (generateQueryScript now st) = queryScript st
      \<and> isQueryScript (generateQueryScript now st) = isQueryScript st
      \<and> variant (last (toasts (generateQueryScript now st))) = Some ''destructive'')
   \<and> (file1 st = Some f \<and> queryMatriculas (data f) = [] \<longrightarrow>
      generateQueryScript now st = st\<lparr>toasts := toasts st @ [noMatriculasToast]\<rparr>
      \<and> queryScript (generateQueryScript now st) = queryScript st
      \<and> isQueryScript (generateQueryScript now st) = isQueryScript st
      \<and> title noMatriculasToast = ''Error''
      \<and> variant noMatriculasToast = Some ''destructive'')
   \<and> (file1 st = Some f \<and> queryMatriculas (data f) \<noteq> [] \<longrightarrow>
      queryScript (generateQueryScript now st) = queryScriptText now f (queryMatriculas (data f))
      \<and> isQueryScript (generateQueryScript now st))
   \<and> validationScript (generateValidationScript now fileList fcs) = concat (validationPieces now fileList)
   \<and> concat (validationPieces now fileList) \<noteq> []
   \<and> fc_toasts (generateValidationScript now fileList fcs) = fc_toasts fcs"
proof -
  have c1: "file1 st = None \<longrightarrow>
      queryScript (generateQueryScript now st) = queryScript st
      \<and> isQueryScript (generateQueryScript now st) = isQueryScript st
      \<and> variant (last (toasts (generateQueryScript now st))) = Some ''destructive''"
    by (simp add: generateQueryScript_none)
  have c2: "file1 st = Some f \<and> queryMatriculas (data f) = [] \<longrightarrow>
      generateQueryScript now st = st\<lparr>toasts := toasts st @ [noMatriculasToast]\<rparr>
      \<and> queryScript (generateQueryScript now st) = queryScript st
      \<and> isQueryScript (generateQueryScript now st) = isQueryScript st
      \<and> title noMatriculasToast = ''Error''
      \<and> variant noMatriculasToast = Some ''destructive''"
    by (simp add: generateQueryScript_zero noMatriculasToast_def)
  have c3: "file1 st = Some f \<and> queryMatriculas (data f) \<noteq> [] \<longrightarrow>
      queryScript (generateQueryScript now st) = queryScriptText now f (queryMatriculas (data f))
      \<and> isQueryScript (generateQueryScript now st)"
    using generateQueryScript_some [of st f now] by blast
  have c4: "validationScript (generateValidationScript now fileList fcs) = concat (validationPieces now fileList)"
    by (simp add: generateValidationScript_def)
  have c5: "concat (validationPieces now fileList) \<noteq> []"
    by (simp add: validationPieces_def Let_def)
  have c6: "fc_toasts (generateValidationScript now fileList fcs) = fc_toasts fcs"
    by (simp add: generateValidationScript_def)
  show ?thesis by (rule conjI c1 c2 c3 c4 c5 c6)+
qed

theorem generateQueryScript_empty_witness:
  "file1 exNoIdState = Some exNoIdFile \<and> queryMatriculas (data exNoIdFile) = []
   \<and> generateQueryScript exNow exNoIdState = exNoIdState\<lparr>toasts := [noMatriculasToast]\<rparr>
   \<and> queryScript (generateQueryScript exNow exNoIdState) = ''-- old''
   \<and> \<not> isQueryScript (generateQueryScript exNow exNoIdState)
   \<and> variant (last (toasts (generateQueryScript exNow (exNoIdState\<lparr>file1 := None\<rparr>)))) = Some ''destructive''
   \<and> queryScript (generateQueryScript exNow exState) =
       queryScriptText exNow exLeft [''000001'', ''000002'', ''000003'', ''000004'', ''000006'']
   \<and> isQueryScript (generateQueryScript exNow exState)"
proof -
  note a = generateQueryScript_empty [where st = exNoIdState and f = exNoIdFile and now = exNow]
  note b = generateQueryScript_empty
    [where st = "exNoIdState\<lparr>file1 := None\<rparr>" and f = exNoIdFile and now = exNow]
  note c = generateQueryScript_empty [where st = exState and f = exLeft and now = exNow]
  have f: "file1 exNoIdState = Some exNoIdFile" "toasts exNoIdState = []"
    "queryScript exNoIdState = ''-- old''" "\<not> isQueryScript exNoIdState"
    by (simp_all add: exNoIdState_def)
  have g: "file1 exState = Some exLeft" by (simp add: exState_def)
  have a2: "generateQueryScript exNow exNoIdState = exNoIdState\<lparr>toasts := [noMatriculasToast]\<rparr>
      \<and> queryScript (generateQueryScript exNow exNoIdState) = ''-- old''
      \<and> \<not> isQueryScript (generateQueryScript exNow exNoIdState)"
    using a [THEN conjunct2, THEN conjunct1] f exNoId_matriculas by simp
  have b1: "variant (last (toasts (generateQueryScript exNow (exNoIdState\<lparr>file1 := None\<rparr>)))) = Some ''destructive''"
    using b [THEN conjunct1] by simp
  have c3: "queryScript (generateQueryScript exNow exState) =
       queryScriptText exNow exLeft [''000001'', ''000002'', ''000003'', ''000004'', ''000006'']
     \<and> isQueryScript (generateQueryScript exNow exState)"
    using c [THEN conjunct2, THEN conjunct2, THEN conjunct1] g exLeft_matriculas by simp
  show ?thesis using f(1) exNoId_matriculas a2 b1 c3 by blast
qed

text \<open>
  The claim C8 as it is stated fails for the validation script: for one SQL file in which no
  identifier was found, \<^verbatim>\<open>generateValidationScript\<close> stores a script, whose IN list is
  empty, and shows no toast.
\<close>

theorem generateValidationScript_empty_counterexample:
  "allInstalacionesOf [exSqlFile 0] = []
   \<and> validationScript exFcState = []
   \<and> validationScript (generateValidationScript exNow [exSqlFile 0] exFcState) \<noteq> []
   \<and> fc_toasts (generateValidationScript exNow [exSqlFile 0] exFcState) = []
   \<and> take 2 (drop 17 (validationPieces exNow [exSqlFile 0])) = [''WHERE instalacao IN ('' @ nl, '')'' @ nl]"
proof -
  have e: "allInstalacionesOf [exSqlFile 0] = []"
    by (simp add: allInstalacionesOf_def exSqlFile_def)
  have p: "take 2 (drop 17 (validationPieces exNow [exSqlFile 0])) = [''WHERE instalacao IN ('' @ nl, '')'' @ nl]"
    by (simp add: validationPieces_def e normalValidationPieces_def Let_def)
  have n: "validationScript (generateValidationScript exNow [exSqlFile 0] exFcState) \<noteq> []"
    by (simp add: generateValidationScript_def validationPieces_def e Let_def)
  have t: "fc_toasts (generateValidationScript exNow [exSqlFile 0] exFcState) = []"
    "validationScript exFcState = []"
    by (simp_all add: generateValidationScript_def exFcState_def)
  show ?thesis using e p n t by blast
qed

text \<open>
  C9. The normalizer is idempotent on every string, and a string of digits only (one digit
  at least, the test \<^verbatim>\<open>/^\d+$/\<close> of the code) shorter than 6 is normalized to a
  string of length 6 exactly. The four examples of the specification are evaluated.
\<close>

theorem normalizeMatricula_idempotent:
  "normalizeMatricula (normalizeMatricula s) = normalizeMatricula s
   \<and> (testDigits s \<and> length s < 6 \<longrightarrow> length (normalizeMatricula s) = 6)
   \<and> normalizeMatricula ''517'' = ''000517''
   \<and> normalizeMatricula ''031517'' = ''031517''
   \<and> normalizeMatricula ''1234567'' = ''1234567''
   \<and> normalizeMatricula ''AB12'' = ''AB12''"
proof -
  have len: "length (normalizeMatricula s) = 6" if "testDigits s" "length s < 6"
  proof -
    from that have "trim s = s" by (simp add: testDigits_def trim_digits)
    with that show ?thesis by (simp add: normalize_padded)
  qed
  have ex: "normalizeMatricula ''517'' = ''000517''" "normalizeMatricula ''031517'' = ''031517''"
    "normalizeMatricula ''1234567'' = ''1234567''" "normalizeMatricula ''AB12'' = ''AB12''"
    by (simp_all add: normalizeMatricula_def trim_def isWhiteSpace_def testDigits_def isDigit_def
        eval_nat_numeral)
  show ?thesis using len ex by (simp add: normalize_idem)
qed

theorem normalizeMatricula_idempotent_witness:
  "normalizeMatricula (normalizeMatricula ''42'') = normalizeMatricula ''42''
   \<and> testDigits ''42'' \<and> length ''42'' < 6 \<and> length (normalizeMatricula ''42'') = 6"
proof -
  have d: "testDigits ''42''" by (simp add: testDigits_def isDigit_def)
  show ?thesis using normalizeMatricula_idempotent [of "''42''"] d by simp
qed

text \<open>
  C10. Every UPDATE statement has the form
  \<^verbatim>\<open>UPDATE ... SET <clauses> WHERE instalacao = '<key>';\<close>: the key stands between single
  quotes, and each clause is \<^verbatim>\<open>cod_poligono = \<close> or \<^verbatim>\<open>cod_celda = \<close> followed by
  the value of file 1 as it is, with no quote around it. For a difference that
  \<^verbatim>\<open>compareFiles\<close> produced, the key written is the normalized key itself: a normalized
  key never has five digits exactly, so the correction of \<^verbatim>\<open>generateScripts\<close> leaves it.
\<close>

theorem updateStatement_quoting:
  "(updateStatement d = Some s \<longrightarrow>
      s = ''UPDATE EDESURFLX_SGD.UTRANSFORMADORA_LT SET '' @ joinWith '', '' (setClauses d)
          @ '' WHERE instalacao = '' @ sq @ correctedKey d @ sq @ '';'')
   \<and> set (setClauses d) \<subseteq>
       {''cod_poligono = '' @ archivo1 (codigoPoligono d), ''cod_celda = '' @ archivo1 (codigoCelda d)}
   \<and> (d \<in> set (differences (compareFiles f1 f2)) \<longrightarrow> correctedKey d = matricula d)"
proof -
  have c1: "updateStatement d = Some s \<longrightarrow>
      s = ''UPDATE EDESURFLX_SGD.UTRANSFORMADORA_LT SET '' @ joinWith '', '' (setClauses d)
          @ '' WHERE instalacao = '' @ sq @ correctedKey d @ sq @ '';''"
  proof
    assume a: "updateStatement d = Some s"
    then have "setClauses d \<noteq> []" using updateStatement_None_iff [of d] by auto
    from updateStatement_Some [OF this] a show "s = ''UPDATE EDESURFLX_SGD.UTRANSFORMADORA_LT SET '' @ joinWith '', '' (setClauses d)
          @ '' WHERE instalacao = '' @ sq @ correctedKey d @ sq @ '';''" by simp
  qed
  have c3: "d \<in> set (differences (compareFiles f1 f2)) \<longrightarrow> correctedKey d = matricula d"
    by (simp add: differences_correctedKey)
  show ?thesis by (rule conjI c1 setClauses_subset c3)+
qed

theorem updateStatement_quoting_witness:
  "exBoth \<in> set (differences (compareFiles exLeft exRight))
   \<and> correctedKey exBoth = ''000003''
   \<and> updateStatement exBoth =
       Some (''UPDATE EDESURFLX_SGD.UTRANSFORMADORA_LT SET cod_poligono = P3, cod_celda = C3 WHERE instalacao = ''
             @ sq @ ''000003'' @ sq @ '';'')"
proof -
  let ?s = "''UPDATE EDESURFLX_SGD.UTRANSFORMADORA_LT SET cod_poligono = P3, cod_celda = C3 WHERE instalacao = ''
             @ sq @ ''000003'' @ sq @ '';''"
  note t = updateStatement_quoting [where d = exBoth and s = ?s and ?f1.0 = exLeft and ?f2.0 = exRight]
  have m: "exBoth \<in> set (differences (compareFiles exLeft exRight))"
    by (simp add: exDifferences exBoth_def)
  have k: "correctedKey exBoth = ''000003''"
    using t [THEN conjunct2, THEN conjunct2] m by (simp add: exBoth_def)
  have sc: "setClauses exBoth = [''cod_poligono = P3'', ''cod_celda = C3'']"
    by (simp add: setClauses_def exBoth_def)
  have mk: "matricula exBoth = ''000003''" by (simp add: exBoth_def)
  have u0: "updateStatement exBoth = Some ?s"
    by (simp add: updateStatement_def sc mk testFiveDigits_def Let_def)
  have "?s = ''UPDATE EDESURFLX_SGD.UTRANSFORMADORA_LT SET '' @ joinWith '', '' (setClauses exBoth)
          @ '' WHERE instalacao = '' @ sq @ correctedKey exBoth @ sq @ '';''"
    using t [THEN conjunct1] u0 by (rule mp)
  then have u: "updateStatement exBoth = Some ?s" using u0 by simp
  show ?thesis by (rule conjI m k u)+
qed

end
